theory Spec2Isabelle
  imports Main
begin

section \<open>Request bodies\<close>

text \<open>
  The value of \<^verbatim>\<open>request.json\<close>: a parsed JSON document. Numbers are the integers
  (Python's unbounded \<open>int\<close>); fractional numbers are left out of the model. An object is
  kept as the list of its members in the order of the text.
\<close>

datatype json =
    JNull
  | JBool bool
  | JInt int
  | JStr string
  | JArr "json list"
  | JObj "(string \<times> json) list"

text \<open>
  The faults of a handler. None of them is caught anywhere in the two services.
\<close>

datatype error =
    ConnectionFailure  \<comment> \<open>\<^verbatim>\<open>pyodbc.connect\<close> raised\<close>
  | AttributeError     \<comment> \<open>\<^verbatim>\<open>data.get\<close> on a body that is not a dict\<close>
  | DatabaseError      \<comment> \<open>\<^verbatim>\<open>cursor.execute\<close> raised: the server rejected the statement\<close>

text \<open>
  \<^verbatim>\<open>dict.get(key)\<close>: the value of the key, \<open>None\<close> when the key is absent. A key
  written twice in the text keeps its last value, as \<^verbatim>\<open>json.loads\<close> does.
\<close>

definition dict_get :: "(string \<times> json) list \<Rightarrow> string \<Rightarrow> json" where
  "dict_get kvs k = (case map_of (rev kvs) k of None \<Rightarrow> JNull | Some v \<Rightarrow> v)"

text \<open>\<^verbatim>\<open>data.get(key)\<close> where \<open>data\<close> is any JSON value: only a dict has \<open>get\<close>.\<close>

fun data_get :: "json \<Rightarrow> string \<Rightarrow> error + json" where
  "data_get (JObj kvs) k = Inr (dict_get kvs k)"
| "data_get _ k = Inl AttributeError"

section \<open>The database\<close>

subsection \<open>Column values\<close>

record sqldate =
  year :: nat
  month :: nat
  day :: nat

record sqltime =
  hour :: nat
  minute :: nat
  second :: nat

definition int_min :: int where "int_min = - 2147483648"
definition int_max :: int where "int_max = 2147483647"

definition digit_val :: "char \<Rightarrow> nat option" where
  "digit_val c = map_of
     [(CHR ''0'', 0), (CHR ''1'', 1), (CHR ''2'', 2), (CHR ''3'', 3), (CHR ''4'', 4),
      (CHR ''5'', 5), (CHR ''6'', 6), (CHR ''7'', 7), (CHR ''8'', 8), (CHR ''9'', 9)] c"

definition is_digit :: "char \<Rightarrow> bool" where
  "is_digit c = (digit_val c \<noteq> None)"

definition digit_char :: "nat \<Rightarrow> char" where
  "digit_char n = ''0123456789'' ! (n mod 10)"

definition parse2 :: "char \<Rightarrow> char \<Rightarrow> nat option" where
  "parse2 a b =
     (case (digit_val a, digit_val b) of
        (Some x, Some y) \<Rightarrow> Some (10 * x + y)
      | _ \<Rightarrow> None)"

definition parse4 :: "char \<Rightarrow> char \<Rightarrow> char \<Rightarrow> char \<Rightarrow> nat option" where
  "parse4 a b c d =
     (case (parse2 a b, parse2 c d) of
        (Some x, Some y) \<Rightarrow> Some (100 * x + y)
      | _ \<Rightarrow> None)"

definition leap_year :: "nat \<Rightarrow> bool" where
  "leap_year y = (y mod 4 = 0 \<and> (y mod 100 \<noteq> 0 \<or> y mod 400 = 0))"

definition days_in_month :: "nat \<Rightarrow> nat \<Rightarrow> nat" where
  "days_in_month y m =
     (if m = 2 then (if leap_year y then 29 else 28)
      else if m = 4 \<or> m = 6 \<or> m = 9 \<or> m = 11 then 30
      else 31)"

text \<open>The range of a \<open>DATE\<close> column: 0001-01-01 to 9999-12-31.\<close>

definition valid_date :: "sqldate \<Rightarrow> bool" where
  "valid_date d =
     (1 \<le> year d \<and> year d \<le> 9999 \<and> 1 \<le> month d \<and> month d \<le> 12 \<and>
      1 \<le> day d \<and> day d \<le> days_in_month (year d) (month d))"

definition valid_time :: "sqltime \<Rightarrow> bool" where
  "valid_time t = (hour t < 24 \<and> minute t < 60 \<and> second t < 60)"

definition mk_date :: "nat option \<Rightarrow> nat option \<Rightarrow> nat option \<Rightarrow> sqldate option" where
  "mk_date y m d =
     (case (y, m, d) of
        (Some y', Some m', Some d') \<Rightarrow>
          (let r = \<lparr>year = y', month = m', day = d'\<rparr>
           in if valid_date r then Some r else None)
      | _ \<Rightarrow> None)"

definition mk_time :: "nat option \<Rightarrow> nat option \<Rightarrow> nat option \<Rightarrow> sqltime option" where
  "mk_time h m s =
     (case (h, m, s) of
        (Some h', Some m', Some s') \<Rightarrow>
          (let r = \<lparr>hour = h', minute = m', second = s'\<rparr>
           in if valid_time r then Some r else None)
      | _ \<Rightarrow> None)"

text \<open>
  The server's conversion of a character parameter into a \<open>DATE\<close> column. The model
  reads the two ISO 8601 forms, \<open>YYYY-MM-DD\<close> and \<open>YYYYMMDD\<close>; every other text is
  taken as rejected.
\<close>

definition parse_date :: "string \<Rightarrow> sqldate option" where
  "parse_date s =
     (if length s = 10 \<and> s ! 4 = CHR ''-'' \<and> s ! 7 = CHR ''-'' then
        mk_date (parse4 (s ! 0) (s ! 1) (s ! 2) (s ! 3))
                (parse2 (s ! 5) (s ! 6)) (parse2 (s ! 8) (s ! 9))
      else if length s = 8 then
        mk_date (parse4 (s ! 0) (s ! 1) (s ! 2) (s ! 3))
                (parse2 (s ! 4) (s ! 5)) (parse2 (s ! 6) (s ! 7))
      else None)"

text \<open>
  The conversion into a \<open>TIME\<close> column: the model reads \<open>HH:MM\<close> and \<open>HH:MM:SS\<close>.
\<close>

definition parse_time :: "string \<Rightarrow> sqltime option" where
  "parse_time s =
     (if length s = 5 \<and> s ! 2 = CHR '':'' then
        mk_time (parse2 (s ! 0) (s ! 1)) (parse2 (s ! 3) (s ! 4)) (Some 0)
      else if length s = 8 \<and> s ! 2 = CHR '':'' \<and> s ! 5 = CHR '':'' then
        mk_time (parse2 (s ! 0) (s ! 1)) (parse2 (s ! 3) (s ! 4)) (parse2 (s ! 6) (s ! 7))
      else None)"

text \<open>
  Decimal numerals. \<open>decimal_str\<close> is Python's \<^verbatim>\<open>str\<close> of an integer and of a
  \<^verbatim>\<open>decimal.Decimal\<close> without fraction, and the text SQL Server makes of an integer;
  \<open>parse_int\<close> reads an optional sign and digits, with blanks around them ignored.
\<close>

fun show_nat :: "nat \<Rightarrow> string" where
  "show_nat n = (if n < 10 then [digit_char n] else show_nat (n div 10) @ [digit_char n])"

declare show_nat.simps [simp del]

definition decimal_str :: "int \<Rightarrow> string" where
  "decimal_str i = (if i < 0 then CHR ''-'' # show_nat (nat (- i)) else show_nat (nat i))"

fun digits_value :: "nat \<Rightarrow> string \<Rightarrow> nat option" where
  "digits_value acc [] = Some acc"
| "digits_value acc (c # cs) =
     (case digit_val c of None \<Rightarrow> None | Some d \<Rightarrow> digits_value (10 * acc + d) cs)"

definition strip_blanks :: "string \<Rightarrow> string" where
  "strip_blanks s =
     rev (dropWhile (\<lambda>c. c = CHR '' '') (rev (dropWhile (\<lambda>c. c = CHR '' '') s)))"

definition parse_int :: "string \<Rightarrow> int option" where
  "parse_int s =
     (case strip_blanks s of
        [] \<Rightarrow> None
      | c # cs \<Rightarrow>
          if c = CHR ''-'' \<or> c = CHR ''+'' then
            (if cs = [] then None
             else map_option (\<lambda>n. if c = CHR ''-'' then - int n else int n) (digits_value 0 cs))
          else map_option int (digits_value 0 (c # cs)))"

definition bigint_min :: int where "bigint_min = - 9223372036854775808"
definition bigint_max :: int where "bigint_max = 9223372036854775807"

text \<open>
  Binding a statement parameter to a column of the table. The columns carry no
  \<open>NOT NULL\<close>, so \<open>None\<close> is stored as \<open>NULL\<close> in each of them. The driver sends a
  Python \<open>int\<close> as an integer of at most 64 bits, a \<open>bool\<close> as a bit and a \<open>str\<close> as
  text, and the server converts the parameter to the type of the column: a bit or a
  numeral text into \<open>INT\<close>, an integer or a bit into \<open>VARCHAR\<close>; nothing but text
  converts into \<open>DATE\<close> or \<open>TIME\<close>. A value out of the column's range, a text longer
  than the column, and a list or a dict, which the driver cannot bind, make the
  statement fail. The server reads more forms of numerals, dates and times than the
  ones written here; for those the functions answer an error, and nothing below is
  concluded from such an error.
\<close>

fun to_int_column :: "json \<Rightarrow> error + int option" where
  "to_int_column JNull = Inr None"
| "to_int_column (JInt n) =
     (if int_min \<le> n \<and> n \<le> int_max then Inr (Some n) else Inl DatabaseError)"
| "to_int_column (JBool b) = Inr (Some (if b then 1 else 0))"
| "to_int_column (JStr s) =
     (case parse_int s of
        None \<Rightarrow> Inl DatabaseError
      | Some n \<Rightarrow> if int_min \<le> n \<and> n \<le> int_max then Inr (Some n) else Inl DatabaseError)"
| "to_int_column _ = Inl DatabaseError"

fun to_varchar_column :: "nat \<Rightarrow> json \<Rightarrow> error + string option" where
  "to_varchar_column w JNull = Inr None"
| "to_varchar_column w (JStr s) =
     (if length s \<le> w then Inr (Some s) else Inl DatabaseError)"
| "to_varchar_column w (JInt n) =
     (if bigint_min \<le> n \<and> n \<le> bigint_max \<and> length (decimal_str n) \<le> w
      then Inr (Some (decimal_str n)) else Inl DatabaseError)"
| "to_varchar_column w (JBool b) =
     (if 1 \<le> w then Inr (Some (if b then ''1'' else ''0'')) else Inl DatabaseError)"
| "to_varchar_column w _ = Inl DatabaseError"

fun to_date_column :: "json \<Rightarrow> error + sqldate option" where
  "to_date_column JNull = Inr None"
| "to_date_column (JStr s) =
     (case parse_date s of None \<Rightarrow> Inl DatabaseError | Some d \<Rightarrow> Inr (Some d))"
| "to_date_column _ = Inl DatabaseError"

fun to_time_column :: "json \<Rightarrow> error + sqltime option" where
  "to_time_column JNull = Inr None"
| "to_time_column (JStr s) =
     (case parse_time s of None \<Rightarrow> Inl DatabaseError | Some t \<Rightarrow> Inr (Some t))"
| "to_time_column _ = Inl DatabaseError"

text \<open>
  \<^verbatim>\<open>CONVERT(VARCHAR(10), date, 120)\<close> and \<^verbatim>\<open>CONVERT(VARCHAR(5), time, 108)\<close>: style 120
  writes \<open>yyyy-mm-dd\<close>, style 108 writes \<open>hh:mi:ss\<close>, both with fixed-width decimal
  fields, and the \<open>VARCHAR\<close> length cuts the text.
\<close>

definition pad2 :: "nat \<Rightarrow> string" where
  "pad2 n = [digit_char (n div 10), digit_char n]"

definition pad4 :: "nat \<Rightarrow> string" where
  "pad4 n = [digit_char (n div 1000), digit_char (n div 100), digit_char (n div 10), digit_char n]"

definition convert_date_120 :: "sqldate \<Rightarrow> string" where
  "convert_date_120 d = take 10 (pad4 (year d) @ ''-'' @ pad2 (month d) @ ''-'' @ pad2 (day d))"

definition convert_time_108 :: "sqltime \<Rightarrow> string" where
  "convert_time_108 t = take 5 (pad2 (hour t) @ '':'' @ pad2 (minute t) @ '':'' @ pad2 (second t))"

subsection \<open>Tables\<close>

text \<open>
  \<^verbatim>\<open>patients (id INT IDENTITY(1,1) PRIMARY KEY, name VARCHAR(255), age INT)\<close> and
  \<^verbatim>\<open>appointments (id INT IDENTITY(1,1) PRIMARY KEY, patient_id INT, doctor VARCHAR(255),
  date DATE, time TIME)\<close>. A table is its rows, in the order of insertion, and the next
  value of its identity column.
\<close>

record patient_row =
  p_id :: int
  p_name :: "string option"
  p_age :: "int option"

record appointment_row =
  a_id :: int
  a_patient_id :: "int option"
  a_doctor :: "string option"
  a_date :: "sqldate option"
  a_time :: "sqltime option"

record 'r table =
  rows :: "'r list"
  next_identity :: int

text \<open>What a handler leaves behind, in the order it happens.\<close>

datatype statement = CreateTable | SelectAll | Insert | SelectIdentity

datatype event =
    Connect             \<comment> \<open>\<^verbatim>\<open>pyodbc.connect\<close> returned a connection\<close>
  | Enter               \<comment> \<open>the \<^verbatim>\<open>with\<close> block is entered\<close>
  | Execute statement   \<comment> \<open>\<^verbatim>\<open>cursor.execute\<close>\<close>
  | Fetch               \<comment> \<open>\<^verbatim>\<open>fetchall\<close>, \<^verbatim>\<open>fetchone\<close>\<close>
  | Commit              \<comment> \<open>the transaction is committed\<close>
  | Rollback            \<comment> \<open>the transaction is rolled back\<close>
  | Exit                \<comment> \<open>the \<^verbatim>\<open>with\<close> block is left, normally or by an exception\<close>
  | Close               \<comment> \<open>\<^verbatim>\<open>conn.close\<close>: the connection is given back\<close>
  | Jsonify             \<comment> \<open>the response body is built\<close>

text \<open>
  The database \<open>hospital\<close> as the two services see it: whether a connection can be made
  now, the two tables (\<open>None\<close>: the table does not exist), and the events so far.
\<close>

record db =
  online :: bool
  patients :: "patient_row table option"
  appointments :: "appointment_row table option"
  trace :: "event list"

definition emit :: "event \<Rightarrow> db \<Rightarrow> db" where
  "emit e s = s\<lparr>trace := trace s @ [e]\<rparr>"

definition empty_table :: "'r table" where
  "empty_table = \<lparr>rows = [], next_identity = 1\<rparr>"

section \<open>Connections\<close>

definition get_db_connection :: "db \<Rightarrow> db \<times> (error + unit)" where
  "get_db_connection s =
     (if online s then (emit Connect s, Inr ()) else (s, Inl ConnectionFailure))"

text \<open>
  What the connection does when its \<^verbatim>\<open>with\<close> block is left. The driver is not part
  of the source; this is pyodbc's \<^verbatim>\<open>Connection.__exit__\<close>: with autocommit off, as
  \<^verbatim>\<open>pyodbc.connect\<close> leaves it, the transaction is committed when the block ended
  normally and rolled back when it raised. The connection is not closed: pyodbc closes
  it on \<^verbatim>\<open>conn.close()\<close>, which neither service calls, or when the object is
  reclaimed. In the handlers below a block that raises has changed no table, so the
  rollback has nothing to undo.
\<close>

definition connection_exit :: "error + 'a \<Rightarrow> db \<Rightarrow> db" where
  "connection_exit r s = (case r of Inl e \<Rightarrow> emit Rollback s | Inr v \<Rightarrow> emit Commit s)"

text \<open>
  \<^verbatim>\<open>with get_db_connection() as conn: body\<close>. When the connection cannot be made the
  block is not entered. Otherwise the block is left after the body on both of its
  outcomes, and an exception of the body goes on to the caller.
\<close>

definition with_connection :: "(db \<Rightarrow> db \<times> (error + 'a)) \<Rightarrow> db \<Rightarrow> db \<times> (error + 'a)" where
  "with_connection body s =
     (case get_db_connection s of
        (s1, Inl e) \<Rightarrow> (s1, Inl e)
      | (s1, Inr _) \<Rightarrow>
          (case body (emit Enter s1) of (s2, r) \<Rightarrow> (connection_exit r (emit Exit s2), r)))"

section \<open>Statements\<close>

text \<open>
  \<^verbatim>\<open>IF NOT EXISTS (...) CREATE TABLE ...\<close>, run once when a service is loaded: an
  existing table is left as it is.
\<close>

definition create_patients_table :: "db \<Rightarrow> db \<times> (error + unit)" where
  "create_patients_table s =
     (let s1 = emit (Execute CreateTable) s in
      case patients s1 of
        None \<Rightarrow> (s1\<lparr>patients := Some empty_table\<rparr>, Inr ())
      | Some t \<Rightarrow> (s1, Inr ()))"

definition create_appointments_table :: "db \<Rightarrow> db \<times> (error + unit)" where
  "create_appointments_table s =
     (let s1 = emit (Execute CreateTable) s in
      case appointments s1 of
        None \<Rightarrow> (s1\<lparr>appointments := Some empty_table\<rparr>, Inr ())
      | Some t \<Rightarrow> (s1, Inr ()))"

text \<open>\<^verbatim>\<open>SELECT * FROM patients\<close> and \<^verbatim>\<open>fetchall\<close>.\<close>

definition select_patients :: "db \<Rightarrow> db \<times> (error + patient_row list)" where
  "select_patients s =
     (let s1 = emit (Execute SelectAll) s in
      case patients s1 of
        None \<Rightarrow> (s1, Inl DatabaseError)
      | Some t \<Rightarrow> (emit Fetch s1, Inr (rows t)))"

text \<open>
  The row of the appointments query: \<open>id\<close>, \<open>patient_id\<close>, \<open>doctor\<close> and the two
  \<open>CONVERT\<close> columns, which are \<open>NULL\<close> where the stored value is.
\<close>

type_synonym appointment_tuple = "int \<times> int option \<times> string option \<times> string option \<times> string option"

definition select_row :: "appointment_row \<Rightarrow> appointment_tuple" where
  "select_row r =
     (a_id r, a_patient_id r, a_doctor r,
      map_option convert_date_120 (a_date r), map_option convert_time_108 (a_time r))"

definition select_appointments :: "db \<Rightarrow> db \<times> (error + appointment_tuple list)" where
  "select_appointments s =
     (let s1 = emit (Execute SelectAll) s in
      case appointments s1 of
        None \<Rightarrow> (s1, Inl DatabaseError)
      | Some t \<Rightarrow> (emit Fetch s1, Inr (map select_row (rows t))))"

text \<open>
  \<^verbatim>\<open>INSERT INTO patients (name, age) VALUES (?, ?)\<close>. The identity column gives the row
  its id; the statement is rejected when a parameter does not fit its column, when the
  identity value has left the range of \<open>INT\<close>, or when the primary key is already taken.
  A rejected statement changes no table. The result is the identity value, which
  \<^verbatim>\<open>SELECT @@IDENTITY\<close> reads back in the same session.
\<close>

definition insert_patient :: "json \<Rightarrow> json \<Rightarrow> db \<Rightarrow> db \<times> (error + int)" where
  "insert_patient name age s =
     (let s1 = emit (Execute Insert) s in
      case patients s1 of
        None \<Rightarrow> (s1, Inl DatabaseError)
      | Some t \<Rightarrow>
         (case to_varchar_column 255 name of
            Inl e \<Rightarrow> (s1, Inl e)
          | Inr n \<Rightarrow>
             (case to_int_column age of
                Inl e \<Rightarrow> (s1, Inl e)
              | Inr a \<Rightarrow>
                 (let i = next_identity t in
                  if int_max < i \<or> i \<in> set (map p_id (rows t)) then (s1, Inl DatabaseError)
                  else (s1\<lparr>patients := Some
                          \<lparr>rows = rows t @ [\<lparr>p_id = i, p_name = n, p_age = a\<rparr>],
                           next_identity = i + 1\<rparr>\<rparr>, Inr i)))))"

definition insert_appointment :: "json \<Rightarrow> json \<Rightarrow> json \<Rightarrow> json \<Rightarrow> db \<Rightarrow> db \<times> (error + int)" where
  "insert_appointment patient_id doctor date time s =
     (let s1 = emit (Execute Insert) s in
      case appointments s1 of
        None \<Rightarrow> (s1, Inl DatabaseError)
      | Some t \<Rightarrow>
         (case to_int_column patient_id of
            Inl e \<Rightarrow> (s1, Inl e)
          | Inr p \<Rightarrow>
         (case to_varchar_column 255 doctor of
            Inl e \<Rightarrow> (s1, Inl e)
          | Inr d \<Rightarrow>
         (case to_date_column date of
            Inl e \<Rightarrow> (s1, Inl e)
          | Inr dt \<Rightarrow>
         (case to_time_column time of
            Inl e \<Rightarrow> (s1, Inl e)
          | Inr tm \<Rightarrow>
             (let i = next_identity t in
              if int_max < i \<or> i \<in> set (map a_id (rows t)) then (s1, Inl DatabaseError)
              else (s1\<lparr>appointments := Some
                      \<lparr>rows = rows t @
                         [\<lparr>a_id = i, a_patient_id = p, a_doctor = d, a_date = dt, a_time = tm\<rparr>],
                       next_identity = i + 1\<rparr>\<rparr>, Inr i)))))))"

text \<open>
  \<^verbatim>\<open>conn.commit()\<close>, \<^verbatim>\<open>cursor.execute("SELECT @@IDENTITY")\<close>, \<^verbatim>\<open>cursor.fetchone()[0]\<close>.
  \<open>@@IDENTITY\<close> has the type \<open>numeric(38,0)\<close> whatever the type of the identity column,
  and the driver hands a \<open>numeric\<close> over as a \<^verbatim>\<open>decimal.Decimal\<close>: the value fetched is
  the identity, as a Decimal and not as an \<open>int\<close>.
\<close>

datatype decimal = Decimal int

definition commit_and_read_identity :: "int \<Rightarrow> db \<Rightarrow> db \<times> (error + decimal)" where
  "commit_and_read_identity i s =
     (emit Fetch (emit (Execute SelectIdentity) (emit Commit s)), Inr (Decimal i))"

text \<open>
  \<^verbatim>\<open>jsonify\<close> on a value that JSON does not have. The framework is not part of the
  source; this is the \<^verbatim>\<open>default\<close> of Flask's JSON provider, which writes a
  \<^verbatim>\<open>decimal.Decimal\<close> as the string of its text (Flask before 2.0.2 refused the value
  with a \<^verbatim>\<open>TypeError\<close> instead).
\<close>

fun json_default :: "decimal \<Rightarrow> json" where
  "json_default (Decimal i) = JStr (decimal_str i)"

section \<open>Patient service\<close>

text \<open>The module-level block that creates the table when the service is loaded.\<close>

definition patient_startup :: "db \<Rightarrow> db \<times> (error + unit)" where
  "patient_startup s =
     with_connection
       (\<lambda>c. case create_patients_table c of
               (c1, Inl e) \<Rightarrow> (c1, Inl e)
             | (c1, Inr _) \<Rightarrow> (emit Commit c1, Inr ())) s"

definition patient_json :: "patient_row \<Rightarrow> json" where
  "patient_json row =
     JObj [(''id'', JInt (p_id row)),
           (''name'', case p_name row of None \<Rightarrow> JNull | Some n \<Rightarrow> JStr n),
           (''age'', case p_age row of None \<Rightarrow> JNull | Some a \<Rightarrow> JInt a)]"

definition get_patients :: "db \<Rightarrow> db \<times> (error + json)" where
  "get_patients s =
     (case with_connection
             (\<lambda>c. case select_patients c of
                     (c1, Inl e) \<Rightarrow> (c1, Inl e)
                   | (c1, Inr fetched) \<Rightarrow> (c1, Inr (map patient_json fetched))) s of
        (s1, Inl e) \<Rightarrow> (s1, Inl e)
      | (s1, Inr result) \<Rightarrow> (emit Jsonify s1, Inr (JArr result)))"

definition add_patient :: "json \<Rightarrow> db \<Rightarrow> db \<times> (error + json)" where
  "add_patient data s =
     (case data_get data ''name'' of
        Inl e \<Rightarrow> (s, Inl e)
      | Inr name \<Rightarrow>
     (case data_get data ''age'' of
        Inl e \<Rightarrow> (s, Inl e)
      | Inr age \<Rightarrow>
     (case with_connection
             (\<lambda>c. case insert_patient name age c of
                     (c1, Inl e) \<Rightarrow> (c1, Inl e)
                   | (c1, Inr i) \<Rightarrow> commit_and_read_identity i c1) s of
        (s1, Inl e) \<Rightarrow> (s1, Inl e)
      | (s1, Inr patient_id) \<Rightarrow>
          (emit Jsonify s1,
           Inr (JObj [(''id'', json_default patient_id), (''name'', name),
                      (''age'', age)])))))"

section \<open>Appointment service\<close>

definition appointment_startup :: "db \<Rightarrow> db \<times> (error + unit)" where
  "appointment_startup s =
     with_connection
       (\<lambda>c. case create_appointments_table c of
               (c1, Inl e) \<Rightarrow> (c1, Inl e)
             | (c1, Inr _) \<Rightarrow> (emit Commit c1, Inr ())) s"

definition opt_str :: "string option \<Rightarrow> json" where
  "opt_str v = (case v of None \<Rightarrow> JNull | Some x \<Rightarrow> JStr x)"

definition opt_int :: "int option \<Rightarrow> json" where
  "opt_int v = (case v of None \<Rightarrow> JNull | Some x \<Rightarrow> JInt x)"

definition appointment_json :: "appointment_tuple \<Rightarrow> json" where
  "appointment_json row =
     (case row of (r0, r1, r2, r3, r4) \<Rightarrow>
        JObj [(''id'', JInt r0), (''patient_id'', opt_int r1), (''doctor'', opt_str r2),
              (''date'', opt_str r3), (''time'', opt_str r4)])"

definition get_appointments :: "db \<Rightarrow> db \<times> (error + json)" where
  "get_appointments s =
     (case with_connection
             (\<lambda>c. case select_appointments c of
                     (c1, Inl e) \<Rightarrow> (c1, Inl e)
                   | (c1, Inr fetched) \<Rightarrow> (c1, Inr (map appointment_json fetched))) s of
        (s1, Inl e) \<Rightarrow> (s1, Inl e)
      | (s1, Inr result) \<Rightarrow> (emit Jsonify s1, Inr (JArr result)))"

definition health :: "db \<Rightarrow> db \<times> (json \<times> nat)" where
  "health s = (emit Jsonify s, (JObj [(''status'', JStr ''healthy'')], 200))"

definition add_appointment :: "json \<Rightarrow> db \<Rightarrow> db \<times> (error + json)" where
  "add_appointment data s =
     (case data_get data ''patient_id'' of
        Inl e \<Rightarrow> (s, Inl e)
      | Inr patient_id \<Rightarrow>
     (case data_get data ''doctor'' of
        Inl e \<Rightarrow> (s, Inl e)
      | Inr doctor \<Rightarrow>
     (case data_get data ''date'' of
        Inl e \<Rightarrow> (s, Inl e)
      | Inr date \<Rightarrow>
     (case data_get data ''time'' of
        Inl e \<Rightarrow> (s, Inl e)
      | Inr time \<Rightarrow>
     (case with_connection
             (\<lambda>c. case insert_appointment patient_id doctor date time c of
                     (c1, Inl e) \<Rightarrow> (c1, Inl e)
                   | (c1, Inr i) \<Rightarrow> commit_and_read_identity i c1) s of
        (s1, Inl e) \<Rightarrow> (s1, Inl e)
      | (s1, Inr appointment_id) \<Rightarrow>
          (emit Jsonify s1,
           Inr (JObj [(''id'', json_default appointment_id), (''patient_id'', patient_id),
                      (''doctor'', doctor), (''date'', date), (''time'', time)])))))))"

section \<open>Routes\<close>

text \<open>
  What the caller gets: the status code and the JSON body. A handler's value is sent
  with 200 unless the handler gives a code; an exception that leaves the handler is
  answered with 500 and no JSON body; a path with no route is 404, a route that has the
  path but not the method is 405.
\<close>

datatype http_method = GET | POST

type_synonym response = "nat \<times> json option"

fun respond :: "db \<times> (error + json) \<Rightarrow> db \<times> response" where
  "respond (s, Inl e) = (s, (500, None))"
| "respond (s, Inr body) = (s, (200, Some body))"

definition patient_app :: "http_method \<Rightarrow> string \<Rightarrow> json \<Rightarrow> db \<Rightarrow> db \<times> response" where
  "patient_app m path body s =
     (if path = ''/patients'' then
        (case m of GET \<Rightarrow> respond (get_patients s) | POST \<Rightarrow> respond (add_patient body s))
      else (s, (404, None)))"

definition appointment_app :: "http_method \<Rightarrow> string \<Rightarrow> json \<Rightarrow> db \<Rightarrow> db \<times> response" where
  "appointment_app m path body s =
     (if path = ''/appointments'' then
        (case m of GET \<Rightarrow> respond (get_appointments s) | POST \<Rightarrow> respond (add_appointment body s))
      else if path = ''/health'' then
        (case m of
           GET \<Rightarrow> (case health s of (s1, (body, code)) \<Rightarrow> (s1, (code, Some body)))
         | POST \<Rightarrow> (s, (405, None)))
      else (s, (404, None)))"

section \<open>Properties of responses and traces\<close>

text \<open>The texts matched by \<^verbatim>\<open>^\d{4}-\d{2}-\d{2}$\<close> and by \<^verbatim>\<open>^\d{2}:\d{2}$\<close>.\<close>

definition matches_date :: "string \<Rightarrow> bool" where
  "matches_date s =
     (length s = 10 \<and> is_digit (s ! 0) \<and> is_digit (s ! 1) \<and> is_digit (s ! 2) \<and>
      is_digit (s ! 3) \<and> s ! 4 = CHR ''-'' \<and> is_digit (s ! 5) \<and> is_digit (s ! 6) \<and>
      s ! 7 = CHR ''-'' \<and> is_digit (s ! 8) \<and> is_digit (s ! 9))"

definition matches_time :: "string \<Rightarrow> bool" where
  "matches_time s =
     (length s = 5 \<and> is_digit (s ! 0) \<and> is_digit (s ! 1) \<and> s ! 2 = CHR '':'' \<and>
      is_digit (s ! 3) \<and> is_digit (s ! 4))"

text \<open>
  The identity column has run ahead of every key in the table, which is how the server
  keeps it while rows come in through the identity alone.
\<close>

definition identity_above :: "('r \<Rightarrow> int) \<Rightarrow> 'r table \<Rightarrow> bool" where
  "identity_above key t = (\<forall>r \<in> set (rows t). key r < next_identity t)"

text \<open>
  A field of the body that the column takes: it is absent, or its value converts.
\<close>

definition accepted :: "(json \<Rightarrow> error + 'a) \<Rightarrow> (string \<times> json) list \<Rightarrow> string \<Rightarrow> bool" where
  "accepted col kvs k = (k \<notin> fst ` set kvs \<or> isl (col (dict_get kvs k)) = False)"

text \<open>
  The database right after both services have been loaded against an empty server, and
  the request bodies of the two example scenarios.
\<close>

definition example_db :: db where
  "example_db =
     \<lparr>online = True, patients = Some \<lparr>rows = [], next_identity = 1\<rparr>,
      appointments = Some \<lparr>rows = [], next_identity = 1\<rparr>, trace = []\<rparr>"

definition jane_doe :: json where
  "jane_doe = JObj [(''name'', JStr ''Jane Doe''), (''age'', JInt 34)]"

definition smith_visit :: json where
  "smith_visit =
     JObj [(''patient_id'', JInt 1), (''doctor'', JStr ''Dr. Smith''),
           (''date'', JStr ''2024-03-15''), (''time'', JStr ''14:30'')]"

definition compact_visit :: json where
  "compact_visit =
     JObj [(''patient_id'', JInt 1), (''doctor'', JStr ''Dr. Smith''),
           (''date'', JStr ''20240315''), (''time'', JStr ''14:30:00'')]"

definition jones_visit :: json where
  "jones_visit =
     JObj [(''patient_id'', JInt 2), (''doctor'', JStr ''Dr. Jones''),
           (''date'', JStr ''20250101''), (''time'', JStr ''09:05:30'')]"

definition smith_visit_created :: json where
  "smith_visit_created =
     JObj [(''id'', JStr ''1''), (''patient_id'', JInt 1), (''doctor'', JStr ''Dr. Smith''),
           (''date'', JStr ''2024-03-15''), (''time'', JStr ''14:30'')]"

definition smith_visit_listed :: json where
  "smith_visit_listed =
     JObj [(''id'', JInt 1), (''patient_id'', JInt 1), (''doctor'', JStr ''Dr. Smith''),
           (''date'', JStr ''2024-03-15''), (''time'', JStr ''14:30'')]"

text \<open>A database whose patients table has two rows, one of them without a name.\<close>

definition ward_db :: db where
  "ward_db =
     \<lparr>online = True,
      patients = Some \<lparr>rows = [\<lparr>p_id = 1, p_name = Some ''Jane Doe'', p_age = Some 34\<rparr>,
                               \<lparr>p_id = 2, p_name = None, p_age = Some 7\<rparr>],
                       next_identity = 3\<rparr>,
      appointments = Some \<lparr>rows = [], next_identity = 1\<rparr>, trace = []\<rparr>"

section \<open>Basic facts\<close>

lemma emit_fields [simp]:
  "online (emit e s) = online s"
  "patients (emit e s) = patients s"
  "appointments (emit e s) = appointments s"
  "trace (emit e s) = trace s @ [e]"
  by (simp_all add: emit_def)

lemma connection_exit_simps [simp]:
  "connection_exit (Inl e) s = emit Rollback s"
  "connection_exit (Inr v) s = emit Commit s"
  by (simp_all add: connection_exit_def)

lemma decimal_str_one: "decimal_str 1 = ''1''"
  by (simp add: decimal_str_def show_nat.simps digit_char_def)

lemma data_get_Inr: "data_get data k = Inr v \<Longrightarrow> \<exists>kvs. data = JObj kvs \<and> v = dict_get kvs k"
  by (cases data) auto

lemma insert_patient_Inr:
  assumes "insert_patient name age c = (c1, Inr i)"
  shows "\<exists>t n a. patients c = Some t \<and> to_varchar_column 255 name = Inr n \<and>
           to_int_column age = Inr a \<and> i = next_identity t \<and> i \<le> int_max \<and>
           i \<notin> set (map p_id (rows t)) \<and>
           c1 = (emit (Execute Insert) c)\<lparr>patients := Some
                  \<lparr>rows = rows t @ [\<lparr>p_id = i, p_name = n, p_age = a\<rparr>],
                   next_identity = i + 1\<rparr>\<rparr>"
  using assms
  by (auto simp: insert_patient_def Let_def split: option.splits sum.splits if_splits)

lemma insert_patient_Inl:
  assumes "insert_patient name age c = (c1, Inl e)"
  shows "c1 = emit (Execute Insert) c"
  using assms
  by (auto simp: insert_patient_def Let_def split: option.splits sum.splits if_splits)

lemma insert_patient_ok:
  assumes "patients c = Some t" "to_varchar_column 255 name = Inr n" "to_int_column age = Inr a"
    "next_identity t \<le> int_max" "next_identity t \<notin> set (map p_id (rows t))"
  shows "insert_patient name age c =
          ((emit (Execute Insert) c)\<lparr>patients := Some
                  \<lparr>rows = rows t @ [\<lparr>p_id = next_identity t, p_name = n, p_age = a\<rparr>],
                   next_identity = next_identity t + 1\<rparr>\<rparr>, Inr (next_identity t))"
  using assms
  by (auto simp: insert_patient_def Let_def)

lemma add_patient_ok:
  assumes "online s" "patients s = Some t" "to_varchar_column 255 (dict_get kvs ''name'') = Inr n"
    "to_int_column (dict_get kvs ''age'') = Inr a"
    "next_identity t \<le> int_max" "next_identity t \<notin> set (map p_id (rows t))"
  shows "add_patient (JObj kvs) s =
          (s\<lparr>patients := Some
                  \<lparr>rows = rows t @ [\<lparr>p_id = next_identity t, p_name = n, p_age = a\<rparr>],
                   next_identity = next_identity t + 1\<rparr>,
              trace := trace s @ [Connect, Enter, Execute Insert, Commit,
                                  Execute SelectIdentity, Fetch, Exit, Commit, Jsonify]\<rparr>,
           Inr (JObj [(''id'', JStr (decimal_str (next_identity t))),
                      (''name'', dict_get kvs ''name''), (''age'', dict_get kvs ''age'')]))"
proof -
  have c: "patients (emit Enter (emit Connect s)) = Some t" using assms(2) by simp
  have "add_patient (JObj kvs) s =
          (emit Jsonify (emit Commit (emit Exit (emit Fetch (emit (Execute SelectIdentity)
             (emit Commit
             ((emit (Execute Insert) (emit Enter (emit Connect s)))\<lparr>patients := Some
                  \<lparr>rows = rows t @ [\<lparr>p_id = next_identity t, p_name = n, p_age = a\<rparr>],
                   next_identity = next_identity t + 1\<rparr>\<rparr>)))))),
           Inr (JObj [(''id'', JStr (decimal_str (next_identity t))),
                      (''name'', dict_get kvs ''name''), (''age'', dict_get kvs ''age'')]))"
    using assms(1)
    by (simp add: add_patient_def with_connection_def get_db_connection_def
        insert_patient_ok [OF c assms(3) assms(4) assms(5) assms(6)]
        commit_and_read_identity_def)
  then show ?thesis by (simp add: emit_def)
qed

lemma add_patient_Inr:
  assumes "add_patient data s = (s', Inr resp)"
  shows "\<exists>kvs t n a. data = JObj kvs \<and> online s \<and> patients s = Some t \<and>
           to_varchar_column 255 (dict_get kvs ''name'') = Inr n \<and>
           to_int_column (dict_get kvs ''age'') = Inr a \<and>
           next_identity t \<le> int_max \<and> next_identity t \<notin> set (map p_id (rows t)) \<and>
           patients s' = Some \<lparr>rows = rows t @ [\<lparr>p_id = next_identity t, p_name = n, p_age = a\<rparr>],
                   next_identity = next_identity t + 1\<rparr> \<and>
           appointments s' = appointments s \<and>
           resp = JObj [(''id'', JStr (decimal_str (next_identity t))),
                        (''name'', dict_get kvs ''name''), (''age'', dict_get kvs ''age'')]"
proof -
  from assms obtain name age where n: "data_get data ''name'' = Inr name"
    and a: "data_get data ''age'' = Inr age"
    by (auto simp: add_patient_def split: sum.splits)
  from data_get_Inr [OF n] data_get_Inr [OF a] obtain kvs where
    d: "data = JObj kvs" and name: "name = dict_get kvs ''name''" and age: "age = dict_get kvs ''age''"
    by auto
  from assms n a have on: "online s"
    by (auto simp: add_patient_def with_connection_def get_db_connection_def split: if_splits)
  from assms n a on obtain c1 i where
    ins: "insert_patient name age (emit Enter (emit Connect s)) = (c1, Inr i)"
    and s': "s' = emit Jsonify (emit Commit (emit Exit (emit Fetch
                    (emit (Execute SelectIdentity) (emit Commit c1)))))"
    and resp: "resp = JObj [(''id'', JStr (decimal_str i)), (''name'', name), (''age'', age)]"
    by (auto simp: add_patient_def with_connection_def get_db_connection_def
        commit_and_read_identity_def split: sum.splits prod.splits)
  from insert_patient_Inr [OF ins] show ?thesis
    using d name age on s' resp by auto
qed

lemma add_patient_Inl:
  assumes "add_patient data s = (s', Inl e)"
  shows "patients s' = patients s \<and> appointments s' = appointments s \<and> online s' = online s"
proof (cases "\<exists>name age. data_get data ''name'' = Inr name \<and> data_get data ''age'' = Inr age")
  case False
  with assms show ?thesis by (auto simp: add_patient_def split: sum.splits)
next
  case True
  then obtain name age where n: "data_get data ''name'' = Inr name"
    and a: "data_get data ''age'' = Inr age" by auto
  show ?thesis
  proof (cases "online s")
    case False
    with assms n a show ?thesis
      by (auto simp: add_patient_def with_connection_def get_db_connection_def)
  next
    case True
    obtain c1 r where ins: "insert_patient name age (emit Enter (emit Connect s)) = (c1, r)"
      by (cases "insert_patient name age (emit Enter (emit Connect s))")
    show ?thesis
    proof (cases r)
      case (Inl e')
      with ins insert_patient_Inl have "c1 = emit (Execute Insert) (emit Enter (emit Connect s))"
        by blast
      with assms n a True ins Inl show ?thesis
        by (auto simp: add_patient_def with_connection_def get_db_connection_def)
    next
      case (Inr i)
      with assms n a True ins show ?thesis
        by (auto simp: add_patient_def with_connection_def get_db_connection_def
            commit_and_read_identity_def)
    qed
  qed
qed

lemma get_patients_offline:
  "\<not> online s \<Longrightarrow> get_patients s = (s, Inl ConnectionFailure)"
  by (simp add: get_patients_def with_connection_def get_db_connection_def)

lemma get_patients_online:
  "online s \<Longrightarrow> patients s = Some t \<Longrightarrow>
   get_patients s =
     (s\<lparr>trace := trace s @ [Connect, Enter, Execute SelectAll, Fetch, Exit, Commit, Jsonify]\<rparr>,
      Inr (JArr (map patient_json (rows t))))"
  by (simp add: get_patients_def with_connection_def get_db_connection_def
      select_patients_def Let_def emit_def)

lemma get_patients_missing:
  "online s \<Longrightarrow> patients s = None \<Longrightarrow>
   get_patients s =
     (s\<lparr>trace := trace s @ [Connect, Enter, Execute SelectAll, Exit, Rollback]\<rparr>,
      Inl DatabaseError)"
  by (simp add: get_patients_def with_connection_def get_db_connection_def
      select_patients_def Let_def emit_def)

lemma respond_200: "respond x = (s', (200, Some resp)) \<Longrightarrow> x = (s', Inr resp)"
  by (cases x rule: respond.cases) auto

lemma jane_doe_added:
  "add_patient jane_doe example_db =
   (example_db\<lparr>patients := Some
        \<lparr>rows = [\<lparr>p_id = 1, p_name = Some ''Jane Doe'', p_age = Some 34\<rparr>], next_identity = 2\<rparr>,
      trace := [Connect, Enter, Execute Insert, Commit, Execute SelectIdentity, Fetch, Exit,
                Commit, Jsonify]\<rparr>,
    Inr (JObj [(''id'', JStr ''1''), (''name'', JStr ''Jane Doe''), (''age'', JInt 34)]))"
  by (simp add: add_patient_def with_connection_def get_db_connection_def
      insert_patient_def commit_and_read_identity_def emit_def dict_get_def int_min_def
      int_max_def example_db_def jane_doe_def decimal_str_one)

lemma jane_doe_created:
  "patient_app POST ''/patients'' jane_doe example_db =
   (example_db\<lparr>patients := Some
        \<lparr>rows = [\<lparr>p_id = 1, p_name = Some ''Jane Doe'', p_age = Some 34\<rparr>], next_identity = 2\<rparr>,
      trace := [Connect, Enter, Execute Insert, Commit, Execute SelectIdentity, Fetch, Exit,
                Commit, Jsonify]\<rparr>,
    (200, Some (JObj [(''id'', JStr ''1''), (''name'', JStr ''Jane Doe''), (''age'', JInt 34)])))"
  by (simp add: patient_app_def jane_doe_added)

lemma jane_doe_listed:
  "snd (patient_app GET ''/patients'' JNull
          (fst (patient_app POST ''/patients'' jane_doe example_db))) =
     (200, Some (JArr [JObj [(''id'', JInt 1), (''name'', JStr ''Jane Doe''),
                             (''age'', JInt 34)]]))"
  by (simp add: jane_doe_created)
     (simp add: patient_app_def get_patients_def with_connection_def get_db_connection_def
       select_patients_def patient_json_def example_db_def emit_def Let_def)

section \<open>Patient service: listing and creating\<close>

text \<open>
  Claim C5. \<open>GET /patients\<close> on a reachable database answers 200 with one object per
  row of the table, in the table's order and with nothing left out: the object of a
  row has the three fields \<open>id\<close>, \<open>name\<close> and \<open>age\<close>, holding the values of the row's
  columns, \<open>null\<close> where a column is \<open>NULL\<close>. No table is changed. On the empty table
  the body is the empty array, not an error.
\<close>

theorem list_patients_all:
  assumes "online s" and "patients s = Some t"
  shows "\<exists>s'. patient_app GET ''/patients'' body s =
            (s', (200, Some (JArr (map (\<lambda>r. JObj
               [(''id'', JInt (p_id r)),
                (''name'', case p_name r of None \<Rightarrow> JNull | Some n \<Rightarrow> JStr n),
                (''age'', case p_age r of None \<Rightarrow> JNull | Some a \<Rightarrow> JInt a)])
               (rows t))))) \<and>
          patients s' = patients s \<and> appointments s' = appointments s \<and> online s' = online s"
  using assms by (simp add: patient_app_def get_patients_online patient_json_def [abs_def])

theorem list_patients_all_witness:
  "snd (patient_app GET ''/patients'' JNull ward_db) =
     (200, Some (JArr [JObj [(''id'', JInt 1), (''name'', JStr ''Jane Doe''), (''age'', JInt 34)],
                       JObj [(''id'', JInt 2), (''name'', JNull), (''age'', JInt 7)]])) \<and>
   patients (fst (patient_app GET ''/patients'' JNull ward_db)) = patients ward_db \<and>
   snd (patient_app GET ''/patients'' JNull example_db) = (200, Some (JArr [])) \<and>
   patients (fst (patient_app GET ''/patients'' JNull example_db)) = patients example_db"
proof -
  have w: "online ward_db"
    "patients ward_db =
       Some \<lparr>rows = [\<lparr>p_id = 1, p_name = Some ''Jane Doe'', p_age = Some 34\<rparr>,
                      \<lparr>p_id = 2, p_name = None, p_age = Some 7\<rparr>], next_identity = 3\<rparr>"
    by (simp_all add: ward_db_def)
  have e: "online example_db" "patients example_db = Some \<lparr>rows = [], next_identity = 1\<rparr>"
    by (simp_all add: example_db_def)
  from list_patients_all [OF w, of JNull] list_patients_all [OF e, of JNull]
  show ?thesis by auto
qed

text \<open>
  Claim C4, at the request of the example scenario. On the empty table
  \<open>POST /patients\<close> with the name Jane Doe and the age 34 answers 200, appends exactly
  one row, whose id is the identity value 1, and returns the name and the age as
  given. The id of the response is not the integer 1: the handler passes the value it
  fetched from \<open>SELECT @@IDENTITY\<close> to \<^verbatim>\<open>jsonify\<close> as it is, a Decimal, and the response
  carries the string \<open>"1"\<close>. The listing that follows gives the same record with the
  integer 1, read from the \<open>INT\<close> column.
\<close>

theorem create_patient_id_is_text:
  "patient_app POST ''/patients'' jane_doe example_db =
     (example_db\<lparr>patients := Some
          \<lparr>rows = [\<lparr>p_id = 1, p_name = Some ''Jane Doe'', p_age = Some 34\<rparr>],
           next_identity = 2\<rparr>,
        trace := [Connect, Enter, Execute Insert, Commit, Execute SelectIdentity, Fetch, Exit,
                  Commit, Jsonify]\<rparr>,
      (200, Some (JObj [(''id'', JStr ''1''), (''name'', JStr ''Jane Doe''),
                        (''age'', JInt 34)]))) \<and>
   JStr ''1'' \<noteq> JInt 1 \<and>
   snd (patient_app GET ''/patients'' JNull
          (fst (patient_app POST ''/patients'' jane_doe example_db))) =
     (200, Some (JArr [JObj [(''id'', JInt 1), (''name'', JStr ''Jane Doe''),
                             (''age'', JInt 34)]]))"
  using jane_doe_created jane_doe_listed by simp

text \<open>
  Claim C1. Take a reachable database whose patients table has its identity ahead of
  every key and inside the range of \<open>INT\<close>, and a body whose \<open>name\<close> is a text of at
  most 255 characters and whose \<open>age\<close> is an \<open>INT\<close>. Then creating the patient succeeds,
  and listing afterwards gives the listing from before followed by exactly one more
  record: it has the name and the age of the body and an id that no row had before,
  the id that the response of the create carries as a Decimal text.
\<close>

theorem create_then_list:
  assumes "online s" and "patients s = Some t" and "identity_above p_id t"
    and "next_identity t \<le> int_max"
    and "dict_get kvs ''name'' = JStr name" and "length name \<le> 255"
    and "dict_get kvs ''age'' = JInt age" and "int_min \<le> age" and "age \<le> int_max"
  shows "\<exists>i created.
           created = JObj [(''id'', JInt i), (''name'', JStr name), (''age'', JInt age)] \<and>
           snd (get_patients s) = Inr (JArr (map patient_json (rows t))) \<and>
           snd (add_patient (JObj kvs) s) =
             Inr (JObj [(''id'', JStr (decimal_str i)), (''name'', JStr name),
                        (''age'', JInt age)]) \<and>
           snd (get_patients (fst (add_patient (JObj kvs) s))) =
             Inr (JArr (map patient_json (rows t) @ [created])) \<and>
           i \<notin> p_id ` set (rows t) \<and> created \<notin> set (map patient_json (rows t))"
proof -
  let ?i = "next_identity t"
  let ?created = "JObj [(''id'', JInt ?i), (''name'', JStr name), (''age'', JInt age)]"
  let ?t' = "\<lparr>rows = rows t @ [\<lparr>p_id = ?i, p_name = Some name, p_age = Some age\<rparr>],
              next_identity = ?i + 1\<rparr>"
  have fresh: "?i \<notin> p_id ` set (rows t)"
    using assms(3) by (auto simp: identity_above_def)
  have n: "to_varchar_column 255 (dict_get kvs ''name'') = Inr (Some name)"
    using assms(5,6) by simp
  have a: "to_int_column (dict_get kvs ''age'') = Inr (Some age)"
    using assms(7,8,9) by simp
  have add: "add_patient (JObj kvs) s =
          (s\<lparr>patients := Some ?t',
              trace := trace s @ [Connect, Enter, Execute Insert, Commit,
                                  Execute SelectIdentity, Fetch, Exit, Commit, Jsonify]\<rparr>,
           Inr (JObj [(''id'', JStr (decimal_str ?i)), (''name'', JStr name),
                        (''age'', JInt age)]))"
    using add_patient_ok [OF assms(1,2) n a assms(4)] fresh assms(5,7) by simp
  have before: "snd (get_patients s) = Inr (JArr (map patient_json (rows t)))"
    by (simp add: get_patients_online [OF assms(1,2)])
  have after: "snd (get_patients (fst (add_patient (JObj kvs) s))) =
      Inr (JArr (map patient_json (rows t) @ [?created]))"
    using assms(1)
    by (simp add: add get_patients_online [where t = ?t'] patient_json_def)
  have new: "?created \<notin> set (map patient_json (rows t))"
    using fresh by (auto simp: patient_json_def)
  show ?thesis using add before after fresh new by simp
qed

theorem create_then_list_witness:
  "snd (add_patient jane_doe example_db) =
     Inr (JObj [(''id'', JStr ''1''), (''name'', JStr ''Jane Doe''), (''age'', JInt 34)]) \<and>
   snd (get_patients example_db) = Inr (JArr []) \<and>
   snd (get_patients (fst (add_patient jane_doe example_db))) =
     Inr (JArr [JObj [(''id'', JInt 1), (''name'', JStr ''Jane Doe''), (''age'', JInt 34)]])"
proof -
  have h: "online example_db" "patients example_db = Some \<lparr>rows = [], next_identity = 1\<rparr>"
    "identity_above p_id \<lparr>rows = [], next_identity = 1\<rparr>"
    "next_identity \<lparr>rows = [], next_identity = 1\<rparr> \<le> int_max"
    "dict_get [(''name'', JStr ''Jane Doe''), (''age'', JInt 34)] ''name'' = JStr ''Jane Doe''"
    "length ''Jane Doe'' \<le> 255"
    "dict_get [(''name'', JStr ''Jane Doe''), (''age'', JInt 34)] ''age'' = JInt 34"
    "int_min \<le> 34" "34 \<le> int_max"
    by (simp_all add: example_db_def identity_above_def int_max_def int_min_def dict_get_def)
  from create_then_list [OF h]
  obtain i where b: "snd (get_patients example_db) = Inr (JArr [])"
    and c: "snd (add_patient jane_doe example_db) =
       Inr (JObj [(''id'', JStr (decimal_str i)), (''name'', JStr ''Jane Doe''),
                  (''age'', JInt 34)])"
    and l: "snd (get_patients (fst (add_patient jane_doe example_db))) =
       Inr (JArr [JObj [(''id'', JInt i), (''name'', JStr ''Jane Doe''), (''age'', JInt 34)]])"
    by (auto simp: jane_doe_def)
  have "patients (fst (add_patient jane_doe example_db)) =
      Some \<lparr>rows = [\<lparr>p_id = 1, p_name = Some ''Jane Doe'', p_age = Some 34\<rparr>],
            next_identity = 2\<rparr>"
    by (simp add: jane_doe_added)
  moreover have "online (fst (add_patient jane_doe example_db))"
    by (simp add: jane_doe_added) (simp add: example_db_def)
  ultimately have "snd (get_patients (fst (add_patient jane_doe example_db))) =
      Inr (JArr [JObj [(''id'', JInt 1), (''name'', JStr ''Jane Doe''), (''age'', JInt 34)]])"
    by (simp add: get_patients_online patient_json_def)
  with l have "i = 1" by simp
  with c b l show ?thesis by (simp add: decimal_str_one)
qed

section \<open>Health\<close>

text \<open>
  Claim C3. The appointment service answers \<open>GET /health\<close> with 200 and the constant
  body \<open>{status: healthy}\<close> in every state of the database, reachable or not, and the
  handler does nothing but build that body: no connection, no statement. The patient
  service registers no \<open>/health\<close> route: there the same request is answered 404.
\<close>

theorem health_route:
  "appointment_app GET ''/health'' body s =
     (s\<lparr>trace := trace s @ [Jsonify]\<rparr>, (200, Some (JObj [(''status'', JStr ''healthy'')]))) \<and>
   patient_app GET ''/health'' body s = (s, (404, None))"
  by (simp add: patient_app_def appointment_app_def health_def emit_def)

section \<open>Appointment service: basic facts\<close>

lemma get_appointments_offline:
  "\<not> online s \<Longrightarrow> get_appointments s = (s, Inl ConnectionFailure)"
  by (simp add: get_appointments_def with_connection_def get_db_connection_def)

lemma get_appointments_online:
  "online s \<Longrightarrow> appointments s = Some t \<Longrightarrow>
   get_appointments s =
     (s\<lparr>trace := trace s @ [Connect, Enter, Execute SelectAll, Fetch, Exit, Commit, Jsonify]\<rparr>,
      Inr (JArr (map appointment_json (map select_row (rows t)))))"
  by (simp add: get_appointments_def with_connection_def get_db_connection_def
      select_appointments_def Let_def emit_def)

lemma get_appointments_missing:
  "online s \<Longrightarrow> appointments s = None \<Longrightarrow>
   get_appointments s =
     (s\<lparr>trace := trace s @ [Connect, Enter, Execute SelectAll, Exit, Rollback]\<rparr>,
      Inl DatabaseError)"
  by (simp add: get_appointments_def with_connection_def get_db_connection_def
      select_appointments_def Let_def emit_def)

lemma insert_appointment_Inr:
  assumes "insert_appointment pid doctor date time c = (c1, Inr i)"
  shows "\<exists>t p d dt tm. appointments c = Some t \<and> to_int_column pid = Inr p \<and>
           to_varchar_column 255 doctor = Inr d \<and> to_date_column date = Inr dt \<and>
           to_time_column time = Inr tm \<and> i = next_identity t \<and> i \<le> int_max \<and>
           i \<notin> set (map a_id (rows t)) \<and>
           c1 = (emit (Execute Insert) c)\<lparr>appointments := Some
                  \<lparr>rows = rows t @
                     [\<lparr>a_id = i, a_patient_id = p, a_doctor = d, a_date = dt, a_time = tm\<rparr>],
                   next_identity = i + 1\<rparr>\<rparr>"
  using assms
  by (auto simp: insert_appointment_def Let_def split: option.splits sum.splits if_splits)

lemma insert_appointment_Inl:
  assumes "insert_appointment pid doctor date time c = (c1, Inl e)"
  shows "c1 = emit (Execute Insert) c"
  using assms
  by (auto simp: insert_appointment_def Let_def split: option.splits sum.splits if_splits)

lemma insert_appointment_ok:
  assumes "appointments c = Some t" "to_int_column pid = Inr p"
    "to_varchar_column 255 doctor = Inr d" "to_date_column date = Inr dt"
    "to_time_column time = Inr tm"
    "next_identity t \<le> int_max" "next_identity t \<notin> set (map a_id (rows t))"
  shows "insert_appointment pid doctor date time c =
          ((emit (Execute Insert) c)\<lparr>appointments := Some
                  \<lparr>rows = rows t @
                     [\<lparr>a_id = next_identity t, a_patient_id = p, a_doctor = d, a_date = dt,
                       a_time = tm\<rparr>],
                   next_identity = next_identity t + 1\<rparr>\<rparr>, Inr (next_identity t))"
  using assms
  by (auto simp: insert_appointment_def Let_def)

lemma add_appointment_ok:
  assumes "online s" "appointments s = Some t"
    "to_int_column (dict_get kvs ''patient_id'') = Inr p"
    "to_varchar_column 255 (dict_get kvs ''doctor'') = Inr d"
    "to_date_column (dict_get kvs ''date'') = Inr dt"
    "to_time_column (dict_get kvs ''time'') = Inr tm"
    "next_identity t \<le> int_max" "next_identity t \<notin> set (map a_id (rows t))"
  shows "add_appointment (JObj kvs) s =
          (s\<lparr>appointments := Some
                  \<lparr>rows = rows t @
                     [\<lparr>a_id = next_identity t, a_patient_id = p, a_doctor = d, a_date = dt,
                       a_time = tm\<rparr>],
                   next_identity = next_identity t + 1\<rparr>,
              trace := trace s @ [Connect, Enter, Execute Insert, Commit,
                                  Execute SelectIdentity, Fetch, Exit, Commit, Jsonify]\<rparr>,
           Inr (JObj [(''id'', JStr (decimal_str (next_identity t))),
                      (''patient_id'', dict_get kvs ''patient_id''),
                      (''doctor'', dict_get kvs ''doctor''),
                      (''date'', dict_get kvs ''date''), (''time'', dict_get kvs ''time'')]))"
proof -
  have c: "appointments (emit Enter (emit Connect s)) = Some t" using assms(2) by simp
  have "add_appointment (JObj kvs) s =
          (emit Jsonify (emit Commit (emit Exit (emit Fetch (emit (Execute SelectIdentity)
             (emit Commit
             ((emit (Execute Insert) (emit Enter (emit Connect s)))\<lparr>appointments := Some
                  \<lparr>rows = rows t @
                     [\<lparr>a_id = next_identity t, a_patient_id = p, a_doctor = d, a_date = dt,
                       a_time = tm\<rparr>],
                   next_identity = next_identity t + 1\<rparr>\<rparr>)))))),
           Inr (JObj [(''id'', JStr (decimal_str (next_identity t))),
                      (''patient_id'', dict_get kvs ''patient_id''),
                      (''doctor'', dict_get kvs ''doctor''),
                      (''date'', dict_get kvs ''date''), (''time'', dict_get kvs ''time'')]))"
    using assms(1)
    by (simp add: add_appointment_def with_connection_def get_db_connection_def
        insert_appointment_ok [OF c assms(3) assms(4) assms(5) assms(6) assms(7) assms(8)]
        commit_and_read_identity_def)
  then show ?thesis by (simp add: emit_def)
qed

lemma add_appointment_Inr:
  assumes "add_appointment data s = (s', Inr resp)"
  shows "\<exists>kvs t p d dt tm. data = JObj kvs \<and> online s \<and> appointments s = Some t \<and>
           to_int_column (dict_get kvs ''patient_id'') = Inr p \<and>
           to_varchar_column 255 (dict_get kvs ''doctor'') = Inr d \<and>
           to_date_column (dict_get kvs ''date'') = Inr dt \<and>
           to_time_column (dict_get kvs ''time'') = Inr tm \<and>
           next_identity t \<le> int_max \<and> next_identity t \<notin> set (map a_id (rows t)) \<and>
           appointments s' = Some
              \<lparr>rows = rows t @
                 [\<lparr>a_id = next_identity t, a_patient_id = p, a_doctor = d, a_date = dt,
                   a_time = tm\<rparr>],
               next_identity = next_identity t + 1\<rparr> \<and>
           patients s' = patients s \<and> online s' = online s \<and>
           resp = JObj [(''id'', JStr (decimal_str (next_identity t))),
                      (''patient_id'', dict_get kvs ''patient_id''),
                      (''doctor'', dict_get kvs ''doctor''),
                      (''date'', dict_get kvs ''date''), (''time'', dict_get kvs ''time'')]"
proof -
  from assms obtain pid doctor date time where
    g: "data_get data ''patient_id'' = Inr pid" "data_get data ''doctor'' = Inr doctor"
       "data_get data ''date'' = Inr date" "data_get data ''time'' = Inr time"
    by (auto simp: add_appointment_def split: sum.splits)
  from g [THEN data_get_Inr] obtain kvs where
    d: "data = JObj kvs" and v: "pid = dict_get kvs ''patient_id''"
      "doctor = dict_get kvs ''doctor''" "date = dict_get kvs ''date''"
      "time = dict_get kvs ''time''"
    by auto
  from assms g have on: "online s"
    by (auto simp: add_appointment_def with_connection_def get_db_connection_def
        split: if_splits)
  from assms g on obtain c1 i where
    ins: "insert_appointment pid doctor date time (emit Enter (emit Connect s)) = (c1, Inr i)"
    and s': "s' = emit Jsonify (emit Commit (emit Exit (emit Fetch
                    (emit (Execute SelectIdentity) (emit Commit c1)))))"
    and resp: "resp = JObj [(''id'', JStr (decimal_str i)), (''patient_id'', pid),
                            (''doctor'', doctor),
                            (''date'', date), (''time'', time)]"
    by (auto simp: add_appointment_def with_connection_def get_db_connection_def
        commit_and_read_identity_def split: sum.splits prod.splits)
  from insert_appointment_Inr [OF ins] show ?thesis
    using d v on s' resp by auto
qed

section \<open>Unreachable database\<close>

text \<open>
  Claim C7. When no connection can be made, each list and each create operation of the
  two services ends in an error: the handler raises (the connection failure, for a body
  that is a JSON object), nothing catches it, the caller gets 500 and never 200, and
  the database is left as it was. The contract in the specification calls this failure
  ServiceUnavailable.
\<close>

theorem unreachable_database_fails:
  assumes "\<not> online s"
  shows "get_patients s = (s, Inl ConnectionFailure) \<and>
         add_patient (JObj kvs) s = (s, Inl ConnectionFailure) \<and>
         get_appointments s = (s, Inl ConnectionFailure) \<and>
         add_appointment (JObj kvs) s = (s, Inl ConnectionFailure) \<and>
         patient_app GET ''/patients'' body s = (s, (500, None)) \<and>
         patient_app POST ''/patients'' body s = (s, (500, None)) \<and>
         appointment_app GET ''/appointments'' body s = (s, (500, None)) \<and>
         appointment_app POST ''/appointments'' body s = (s, (500, None))"
proof -
  have lp: "get_patients s = (s, Inl ConnectionFailure)"
    using assms by (rule get_patients_offline)
  have la: "get_appointments s = (s, Inl ConnectionFailure)"
    using assms by (rule get_appointments_offline)
  have cp: "add_patient (JObj kvs) s = (s, Inl ConnectionFailure)" for kvs
    using assms by (simp add: add_patient_def with_connection_def get_db_connection_def)
  have ca: "add_appointment (JObj kvs) s = (s, Inl ConnectionFailure)" for kvs
    using assms by (simp add: add_appointment_def with_connection_def get_db_connection_def)
  have pp: "\<exists>e. add_patient body s = (s, Inl e)"
    using cp by (cases body) (simp_all add: add_patient_def)
  have pa: "\<exists>e. add_appointment body s = (s, Inl e)"
    using ca by (cases body) (simp_all add: add_appointment_def)
  from pp have rp: "patient_app POST ''/patients'' body s = (s, (500, None))"
    by (auto simp: patient_app_def)
  from pa have ra: "appointment_app POST ''/appointments'' body s = (s, (500, None))"
    by (auto simp: appointment_app_def)
  show ?thesis
    using lp la cp ca rp ra by (simp add: patient_app_def appointment_app_def)
qed

theorem unreachable_database_fails_witness:
  "\<not> online (example_db\<lparr>online := False\<rparr>) \<and>
   patient_app GET ''/patients'' JNull (example_db\<lparr>online := False\<rparr>) =
     (example_db\<lparr>online := False\<rparr>, (500, None)) \<and>
   patient_app POST ''/patients'' jane_doe (example_db\<lparr>online := False\<rparr>) =
     (example_db\<lparr>online := False\<rparr>, (500, None)) \<and>
   appointment_app GET ''/appointments'' JNull (example_db\<lparr>online := False\<rparr>) =
     (example_db\<lparr>online := False\<rparr>, (500, None)) \<and>
   appointment_app POST ''/appointments'' smith_visit (example_db\<lparr>online := False\<rparr>) =
     (example_db\<lparr>online := False\<rparr>, (500, None))"
proof -
  have h: "\<not> online (example_db\<lparr>online := False\<rparr>)" by simp
  show ?thesis
    using h unreachable_database_fails [OF h, of _ JNull]
      unreachable_database_fails [OF h, of _ jane_doe]
      unreachable_database_fails [OF h, of _ smith_visit]
    by simp
qed

section \<open>Appointment service: creating and listing\<close>

lemma smith_visit_added:
  "add_appointment smith_visit example_db =
   (example_db\<lparr>appointments := Some
        \<lparr>rows = [\<lparr>a_id = 1, a_patient_id = Some 1, a_doctor = Some ''Dr. Smith'',
                  a_date = Some \<lparr>year = 2024, month = 3, day = 15\<rparr>,
                  a_time = Some \<lparr>hour = 14, minute = 30, second = 0\<rparr>\<rparr>],
         next_identity = 2\<rparr>,
      trace := [Connect, Enter, Execute Insert, Commit, Execute SelectIdentity, Fetch, Exit,
                Commit, Jsonify]\<rparr>,
    Inr smith_visit_created)"
  by (simp add: add_appointment_def with_connection_def get_db_connection_def
      insert_appointment_def commit_and_read_identity_def emit_def dict_get_def int_min_def
      int_max_def example_db_def smith_visit_def smith_visit_created_def decimal_str_one
      parse_date_def parse_time_def mk_date_def mk_time_def parse2_def parse4_def
      digit_val_def valid_date_def valid_time_def days_in_month_def leap_year_def)


lemma below_ten:
  "k < 10 \<Longrightarrow>
   k = 0 \<or> k = 1 \<or> k = 2 \<or> k = 3 \<or> k = 4 \<or> k = 5 \<or> k = 6 \<or> k = 7 \<or> k = 8 \<or> k = (9::nat)"
  by arith

lemma is_digit_digit_char: "is_digit (digit_char n)"
proof -
  have "n mod 10 < 10" by simp
  from below_ten [OF this] show ?thesis
    by (auto simp: is_digit_def digit_char_def digit_val_def)
qed

lemma matches_date_convert: "matches_date (convert_date_120 d)"
  by (simp add: matches_date_def convert_date_120_def pad2_def pad4_def is_digit_digit_char)

lemma matches_time_convert: "matches_time (convert_time_108 t)"
  by (simp add: matches_time_def convert_time_108_def pad2_def is_digit_digit_char)

lemmas run_defs =
  add_appointment_def get_appointments_def with_connection_def get_db_connection_def
  insert_appointment_def select_appointments_def select_row_def appointment_json_def
  commit_and_read_identity_def emit_def dict_get_def int_min_def int_max_def example_db_def
  parse_date_def parse_time_def mk_date_def mk_time_def parse2_def parse4_def
  digit_val_def valid_date_def valid_time_def days_in_month_def leap_year_def
  convert_date_120_def convert_time_108_def pad2_def pad4_def digit_char_def
  opt_int_def opt_str_def Let_def decimal_str_one

lemma compact_visit_added:
  "add_appointment compact_visit example_db =
   (example_db\<lparr>appointments := Some
        \<lparr>rows = [\<lparr>a_id = 1, a_patient_id = Some 1, a_doctor = Some ''Dr. Smith'',
                  a_date = Some \<lparr>year = 2024, month = 3, day = 15\<rparr>,
                  a_time = Some \<lparr>hour = 14, minute = 30, second = 0\<rparr>\<rparr>],
         next_identity = 2\<rparr>,
      trace := [Connect, Enter, Execute Insert, Commit, Execute SelectIdentity, Fetch, Exit,
                Commit, Jsonify]\<rparr>,
    Inr (JObj [(''id'', JStr ''1''), (''patient_id'', JInt 1), (''doctor'', JStr ''Dr. Smith''),
               (''date'', JStr ''20240315''), (''time'', JStr ''14:30:00'')]))"
  by (simp add: run_defs compact_visit_def)

lemma compact_visit_listed:
  "snd (get_appointments (fst (add_appointment compact_visit example_db))) =
     Inr (JArr [smith_visit_listed])"
  by (simp add: compact_visit_added) (simp add: run_defs smith_visit_listed_def)

lemma jones_visit_added:
  "snd (add_appointment jones_visit example_db) =
    Inr (JObj [(''id'', JStr ''1''), (''patient_id'', JInt 2), (''doctor'', JStr ''Dr. Jones''),
               (''date'', JStr ''20250101''), (''time'', JStr ''09:05:30'')])"
  by (simp add: run_defs jones_visit_def)

lemma get_appointments_Inr:
  assumes "get_appointments s = (s', Inr listed)"
  shows "\<exists>t. online s \<and> appointments s = Some t \<and>
           listed = JArr (map appointment_json (map select_row (rows t))) \<and>
           appointments s' = appointments s \<and> patients s' = patients s"
proof (cases "online s")
  case False
  with assms show ?thesis by (simp add: get_appointments_offline)
next
  case True
  show ?thesis
  proof (cases "appointments s")
    case None
    with assms True show ?thesis by (simp add: get_appointments_missing)
  next
    case (Some t)
    with assms True show ?thesis by (auto simp: get_appointments_online)
  qed
qed

section \<open>Date and time formats\<close>

text \<open>
  Claim C2, as the code has it. Whenever \<open>GET /appointments\<close> answers 200, every row of
  the table is listed with its date rendered by \<open>CONVERT(VARCHAR(10), date, 120)\<close> and
  its time by \<open>CONVERT(VARCHAR(5), time, 108)\<close>, or \<open>null\<close> where the column is
  \<open>NULL\<close>; and every text so rendered matches \<^verbatim>\<open>^\d{4}-\d{2}-\d{2}$\<close>, respectively
  \<^verbatim>\<open>^\d{2}:\d{2}$\<close>, whatever date or time is stored. Nothing is said here about the
  response of the create operation.
\<close>

theorem list_appointments_normalised:
  assumes "appointment_app GET ''/appointments'' body s = (s', (200, Some listed))"
  shows "\<exists>t. appointments s = Some t \<and>
           listed = JArr (map (\<lambda>r. JObj
             [(''id'', JInt (a_id r)), (''patient_id'', opt_int (a_patient_id r)),
              (''doctor'', opt_str (a_doctor r)),
              (''date'', case a_date r of None \<Rightarrow> JNull | Some d \<Rightarrow> JStr (convert_date_120 d)),
              (''time'', case a_time r of None \<Rightarrow> JNull | Some x \<Rightarrow> JStr (convert_time_108 x))])
             (rows t)) \<and>
           (\<forall>r \<in> set (rows t). \<forall>d. a_date r = Some d \<longrightarrow> matches_date (convert_date_120 d)) \<and>
           (\<forall>r \<in> set (rows t). \<forall>x. a_time r = Some x \<longrightarrow> matches_time (convert_time_108 x))"
proof -
  from assms have "respond (get_appointments s) = (s', (200, Some listed))"
    by (simp add: appointment_app_def)
  then have "get_appointments s = (s', Inr listed)" by (rule respond_200)
  from get_appointments_Inr [OF this] obtain t where
    t: "appointments s = Some t"
    and l: "listed = JArr (map appointment_json (map select_row (rows t)))"
    by blast
  have "appointment_json (select_row r) = JObj
             [(''id'', JInt (a_id r)), (''patient_id'', opt_int (a_patient_id r)),
              (''doctor'', opt_str (a_doctor r)),
              (''date'', case a_date r of None \<Rightarrow> JNull | Some d \<Rightarrow> JStr (convert_date_120 d)),
              (''time'', case a_time r of None \<Rightarrow> JNull | Some x \<Rightarrow> JStr (convert_time_108 x))]"
    for r
    by (simp add: appointment_json_def select_row_def opt_str_def split: option.splits)
  with l have "listed = JArr (map (\<lambda>r. JObj
             [(''id'', JInt (a_id r)), (''patient_id'', opt_int (a_patient_id r)),
              (''doctor'', opt_str (a_doctor r)),
              (''date'', case a_date r of None \<Rightarrow> JNull | Some d \<Rightarrow> JStr (convert_date_120 d)),
              (''time'', case a_time r of None \<Rightarrow> JNull | Some x \<Rightarrow> JStr (convert_time_108 x))])
             (rows t))"
    by simp
  with t show ?thesis
    by (simp add: matches_date_convert matches_time_convert)
qed

theorem list_appointments_normalised_witness:
  "snd (appointment_app GET ''/appointments'' JNull
          (fst (add_appointment compact_visit example_db))) =
     (200, Some (JArr [smith_visit_listed])) \<and>
   matches_date (convert_date_120 \<lparr>year = 2024, month = 3, day = 15\<rparr>) \<and>
   matches_time (convert_time_108 \<lparr>hour = 14, minute = 30, second = 0\<rparr>)"
proof -
  let ?s = "fst (add_appointment compact_visit example_db)"
  obtain s' where h: "appointment_app GET ''/appointments'' JNull ?s =
      (s', (200, Some (JArr [smith_visit_listed])))"
    using compact_visit_listed
    by (cases "get_appointments ?s") (simp add: appointment_app_def)
  from list_appointments_normalised [OF h] obtain t where
    t: "appointments ?s = Some t"
    and d: "\<forall>r \<in> set (rows t). \<forall>d. a_date r = Some d \<longrightarrow> matches_date (convert_date_120 d)"
    and x: "\<forall>r \<in> set (rows t). \<forall>x. a_time r = Some x \<longrightarrow> matches_time (convert_time_108 x)"
    by blast
  from t have r: "rows t = [\<lparr>a_id = 1, a_patient_id = Some 1, a_doctor = Some ''Dr. Smith'',
                  a_date = Some \<lparr>year = 2024, month = 3, day = 15\<rparr>,
                  a_time = Some \<lparr>hour = 14, minute = 30, second = 0\<rparr>\<rparr>]"
    by (auto simp: compact_visit_added)
  from d x r h show ?thesis by simp
qed

text \<open>
  The claim as it is written also covers the response of the create operation. There
  it fails: the handler returns the date and the time of the request, here the
  unseparated date \<open>20250101\<close> and the time with seconds \<open>09:05:30\<close>, which the \<open>DATE\<close>
  and \<open>TIME\<close> columns take and which match neither pattern.
\<close>

theorem create_response_not_normalised:
  "snd (appointment_app POST ''/appointments'' jones_visit example_db) =
     (200, Some (JObj [(''id'', JStr ''1''), (''patient_id'', JInt 2),
                       (''doctor'', JStr ''Dr. Jones''), (''date'', JStr ''20250101''),
                       (''time'', JStr ''09:05:30'')])) \<and>
   \<not> matches_date ''20250101'' \<and> \<not> matches_time ''09:05:30''"
  using jones_visit_added
  by (cases "add_appointment jones_visit example_db")
     (simp add: appointment_app_def matches_date_def matches_time_def)

section \<open>What the create response carries\<close>

text \<open>
  Claim C9. Whenever \<open>POST /appointments\<close> answers 200, the body of the response is the
  generated id (the text of the Decimal that was fetched) followed by \<open>patient_id\<close>,
  \<open>doctor\<close>, \<open>date\<close> and \<open>time\<close> exactly as \<^verbatim>\<open>data.get\<close> read them from the
  request: nothing is normalised. So one stored
  record can show two texts: created from the date \<open>20240315\<close> and the time \<open>14:30:00\<close>,
  the response repeats these, and the listing that follows shows \<open>2024-03-15\<close> and
  \<open>14:30\<close> for the same id.
\<close>

theorem create_appointment_echoes:
  "(\<forall>data s s' resp.
      appointment_app POST ''/appointments'' data s = (s', (200, Some resp)) \<longrightarrow>
      (\<exists>kvs t. data = JObj kvs \<and> appointments s = Some t \<and>
         resp = JObj [(''id'', JStr (decimal_str (next_identity t))),
                      (''patient_id'', dict_get kvs ''patient_id''),
                      (''doctor'', dict_get kvs ''doctor''),
                      (''date'', dict_get kvs ''date''), (''time'', dict_get kvs ''time'')])) \<and>
   snd (appointment_app POST ''/appointments'' compact_visit example_db) =
     (200, Some (JObj [(''id'', JStr ''1''), (''patient_id'', JInt 1),
                       (''doctor'', JStr ''Dr. Smith''), (''date'', JStr ''20240315''),
                       (''time'', JStr ''14:30:00'')])) \<and>
   snd (appointment_app GET ''/appointments'' JNull
          (fst (appointment_app POST ''/appointments'' compact_visit example_db))) =
     (200, Some (JArr [JObj [(''id'', JInt 1), (''patient_id'', JInt 1),
                       (''doctor'', JStr ''Dr. Smith''), (''date'', JStr ''2024-03-15''),
                       (''time'', JStr ''14:30'')]]))"
proof (intro conjI allI impI)
  fix data s s' resp
  assume "appointment_app POST ''/appointments'' data s = (s', (200, Some resp))"
  then have "respond (add_appointment data s) = (s', (200, Some resp))"
    by (simp add: appointment_app_def)
  then have "add_appointment data s = (s', Inr resp)" by (rule respond_200)
  from add_appointment_Inr [OF this]
  show "\<exists>kvs t. data = JObj kvs \<and> appointments s = Some t \<and>
         resp = JObj [(''id'', JStr (decimal_str (next_identity t))),
                      (''patient_id'', dict_get kvs ''patient_id''),
                      (''doctor'', dict_get kvs ''doctor''),
                      (''date'', dict_get kvs ''date''), (''time'', dict_get kvs ''time'')]"
    by blast
next
  show "snd (appointment_app POST ''/appointments'' compact_visit example_db) =
     (200, Some (JObj [(''id'', JStr ''1''), (''patient_id'', JInt 1),
                       (''doctor'', JStr ''Dr. Smith''), (''date'', JStr ''20240315''),
                       (''time'', JStr ''14:30:00'')]))"
    by (simp add: appointment_app_def compact_visit_added)
next
  have "fst (appointment_app POST ''/appointments'' compact_visit example_db) =
        fst (add_appointment compact_visit example_db)"
    by (simp add: appointment_app_def compact_visit_added)
  then show "snd (appointment_app GET ''/appointments'' JNull
          (fst (appointment_app POST ''/appointments'' compact_visit example_db))) =
     (200, Some (JArr [JObj [(''id'', JInt 1), (''patient_id'', JInt 1),
                       (''doctor'', JStr ''Dr. Smith''), (''date'', JStr ''2024-03-15''),
                       (''time'', JStr ''14:30'')]]))"
    using compact_visit_listed
    by (cases "get_appointments (fst (add_appointment compact_visit example_db))")
       (simp add: appointment_app_def smith_visit_listed_def)
qed

theorem create_appointment_echoes_witness:
  "appointment_app POST ''/appointments'' smith_visit example_db =
     (fst (add_appointment smith_visit example_db), (200, Some smith_visit_created)) \<and>
   smith_visit_created =
     JObj [(''id'', JStr ''1''), (''patient_id'', dict_get
              [(''patient_id'', JInt 1), (''doctor'', JStr ''Dr. Smith''),
               (''date'', JStr ''2024-03-15''), (''time'', JStr ''14:30'')] ''patient_id''),
           (''doctor'', JStr ''Dr. Smith''), (''date'', JStr ''2024-03-15''),
           (''time'', JStr ''14:30'')]"
proof -
  have h: "appointment_app POST ''/appointments'' smith_visit example_db =
     (fst (add_appointment smith_visit example_db), (200, Some smith_visit_created))"
    by (simp add: appointment_app_def smith_visit_added)
  from create_appointment_echoes have
    "\<exists>kvs t. smith_visit = JObj kvs \<and> appointments example_db = Some t \<and>
       smith_visit_created = JObj [(''id'', JStr (decimal_str (next_identity t))),
                      (''patient_id'', dict_get kvs ''patient_id''),
                      (''doctor'', dict_get kvs ''doctor''),
                      (''date'', dict_get kvs ''date''), (''time'', dict_get kvs ''time'')]"
    using h by blast
  then show ?thesis
    using h
    by (auto simp: smith_visit_def smith_visit_created_def example_db_def dict_get_def
        decimal_str_one)
qed

section \<open>No referential integrity\<close>

text \<open>
  Claim C6. The create operation of the appointment service never looks at the
  patients table. Given a reachable database whose appointments table can take a row
  and a body whose fields fit their columns, with \<open>patient_id\<close> any \<open>INT\<close>, the request
  answers 200 whatever the patients table is: absent, empty, or holding any rows, so
  also when no patient has that id. The patients table is left as it was, and the new
  appointment is the last record of the listing that follows.
\<close>

theorem appointment_without_patient:
  assumes "online s" and "appointments s = Some t" and "identity_above a_id t"
    and "next_identity t \<le> int_max"
    and "dict_get kvs ''patient_id'' = JInt pid" and "int_min \<le> pid" and "pid \<le> int_max"
    and "to_varchar_column 255 (dict_get kvs ''doctor'') = Inr d"
    and "to_date_column (dict_get kvs ''date'') = Inr dt"
    and "to_time_column (dict_get kvs ''time'') = Inr tm"
  shows "\<exists>s' created row.
           appointment_app POST ''/appointments'' (JObj kvs) (s\<lparr>patients := p\<rparr>) =
             (s', (200, Some created)) \<and>
           created = JObj [(''id'', JStr (decimal_str (next_identity t))),
                           (''patient_id'', JInt pid),
                           (''doctor'', dict_get kvs ''doctor''),
                           (''date'', dict_get kvs ''date''),
                           (''time'', dict_get kvs ''time'')] \<and>
           row = \<lparr>a_id = next_identity t, a_patient_id = Some pid, a_doctor = d,
                  a_date = dt, a_time = tm\<rparr> \<and>
           patients s' = p \<and>
           appointments s' = Some \<lparr>rows = rows t @ [row], next_identity = next_identity t + 1\<rparr> \<and>
           snd (get_appointments s') =
             Inr (JArr (map appointment_json (map select_row (rows t)) @
                        [appointment_json (select_row row)]))"
proof -
  let ?s = "s\<lparr>patients := p\<rparr>"
  let ?row = "\<lparr>a_id = next_identity t, a_patient_id = Some pid, a_doctor = d,
                  a_date = dt, a_time = tm\<rparr>"
  let ?t' = "\<lparr>rows = rows t @ [?row], next_identity = next_identity t + 1\<rparr>"
  have on: "online ?s" and ap: "appointments ?s = Some t"
    using assms(1,2) by simp_all
  have fresh: "next_identity t \<notin> set (map a_id (rows t))"
    using assms(3) by (auto simp: identity_above_def)
  have pid: "to_int_column (dict_get kvs ''patient_id'') = Inr (Some pid)"
    using assms(5,6,7) by simp
  note add = add_appointment_ok [OF on ap pid assms(8,9,10,4) fresh]
  let ?s' = "fst (add_appointment (JObj kvs) ?s)"
  have s': "online ?s'" "appointments ?s' = Some ?t'" "patients ?s' = p"
    using assms(1) by (simp_all add: add)
  have "snd (get_appointments ?s') =
      Inr (JArr (map appointment_json (map select_row (rows ?t'))))"
    by (simp add: get_appointments_online [OF s'(1,2)])
  then have listed: "snd (get_appointments ?s') =
             Inr (JArr (map appointment_json (map select_row (rows t)) @
                        [appointment_json (select_row ?row)]))"
    by simp
  have "appointment_app POST ''/appointments'' (JObj kvs) ?s =
          (?s', (200, Some (JObj [(''id'', JStr (decimal_str (next_identity t))),
                           (''patient_id'', JInt pid),
                           (''doctor'', dict_get kvs ''doctor''),
                           (''date'', dict_get kvs ''date''),
                           (''time'', dict_get kvs ''time'')])))"
    using assms(5) by (simp add: appointment_app_def add)
  with s' listed show ?thesis by blast
qed

theorem appointment_without_patient_witness:
  "p_id ` set (rows \<lparr>rows = [], next_identity = 1\<rparr>) = {} \<and>
   (\<exists>s'. appointment_app POST ''/appointments'' smith_visit
           (example_db\<lparr>patients := Some \<lparr>rows = [], next_identity = 1\<rparr>\<rparr>) =
            (s', (200, Some smith_visit_created)) \<and>
          patients s' = Some \<lparr>rows = [], next_identity = 1\<rparr> \<and>
          snd (get_appointments s') = Inr (JArr [smith_visit_listed]))"
proof -
  have h: "online example_db"
    "appointments example_db = Some \<lparr>rows = [], next_identity = 1\<rparr>"
    "identity_above a_id \<lparr>rows = [], next_identity = 1\<rparr>"
    "next_identity \<lparr>rows = [], next_identity = 1\<rparr> \<le> int_max"
    "dict_get [(''patient_id'', JInt 1), (''doctor'', JStr ''Dr. Smith''),
           (''date'', JStr ''2024-03-15''), (''time'', JStr ''14:30'')] ''patient_id'' = JInt 1"
    "int_min \<le> 1" "1 \<le> int_max"
    "to_varchar_column 255 (dict_get [(''patient_id'', JInt 1), (''doctor'', JStr ''Dr. Smith''),
           (''date'', JStr ''2024-03-15''), (''time'', JStr ''14:30'')] ''doctor'') =
        Inr (Some ''Dr. Smith'')"
    "to_date_column (dict_get [(''patient_id'', JInt 1), (''doctor'', JStr ''Dr. Smith''),
           (''date'', JStr ''2024-03-15''), (''time'', JStr ''14:30'')] ''date'') =
        Inr (Some \<lparr>year = 2024, month = 3, day = 15\<rparr>)"
    "to_time_column (dict_get [(''patient_id'', JInt 1), (''doctor'', JStr ''Dr. Smith''),
           (''date'', JStr ''2024-03-15''), (''time'', JStr ''14:30'')] ''time'') =
        Inr (Some \<lparr>hour = 14, minute = 30, second = 0\<rparr>)"
    by (simp_all add: run_defs identity_above_def)
  have r: "appointment_json (select_row
             \<lparr>a_id = 1, a_patient_id = Some 1, a_doctor = Some ''Dr. Smith'',
              a_date = Some \<lparr>year = 2024, month = 3, day = 15\<rparr>,
              a_time = Some \<lparr>hour = 14, minute = 30, second = 0\<rparr>\<rparr>) = smith_visit_listed"
    by (simp add: appointment_json_def select_row_def convert_date_120_def
        convert_time_108_def pad2_def pad4_def digit_char_def opt_int_def opt_str_def
        smith_visit_listed_def)
  from appointment_without_patient [OF h, of "Some \<lparr>rows = [], next_identity = 1\<rparr>"]
  obtain s' where
    "appointment_app POST ''/appointments'' smith_visit
           (example_db\<lparr>patients := Some \<lparr>rows = [], next_identity = 1\<rparr>\<rparr>) =
            (s', (200, Some smith_visit_created))"
    and "patients s' = Some \<lparr>rows = [], next_identity = 1\<rparr>"
    and "snd (get_appointments s') = Inr (JArr [smith_visit_listed])"
    by (auto simp: smith_visit_def smith_visit_created_def dict_get_def r [unfolded smith_visit_listed_def] smith_visit_listed_def decimal_str_one)
  then show ?thesis by auto
qed


section \<open>Missing fields\<close>

lemma dict_get_absent: "k \<notin> fst ` set kvs \<Longrightarrow> dict_get kvs k = JNull"
proof -
  assume "k \<notin> fst ` set kvs"
  then have "map_of (rev kvs) k = None" by (simp add: map_of_eq_None_iff)
  then show ?thesis by (simp add: dict_get_def)
qed

lemma accepted_value:
  assumes "accepted col kvs k" and "col JNull = Inr None"
  shows "\<exists>v. col (dict_get kvs k) = Inr v \<and> (k \<notin> fst ` set kvs \<longrightarrow> v = None)"
proof (cases "k \<in> fst ` set kvs")
  case True
  with assms(1) have "\<not> isl (col (dict_get kvs k))" by (simp add: accepted_def)
  then obtain v where "col (dict_get kvs k) = Inr v" by (cases "col (dict_get kvs k)") auto
  with True show ?thesis by simp
next
  case False
  with assms(2) show ?thesis by (simp add: dict_get_absent)
qed

text \<open>
  Claim C10. A field that is merely missing never makes the create fail. Take a
  reachable database whose table can take a row, and a body that is a JSON object in
  which every field is either absent or fits its column. Then \<open>POST /patients\<close>, and
  likewise \<open>POST /appointments\<close>, answers 200; the response has \<open>null\<close> for each absent
  field and the stored row has \<open>NULL\<close> in its column, since no column is \<open>NOT NULL\<close>.
\<close>

theorem missing_fields_become_null:
  "(online s \<and> patients s = Some t \<and> identity_above p_id t \<and> next_identity t \<le> int_max \<and>
    accepted (to_varchar_column 255) kvs ''name'' \<and> accepted to_int_column kvs ''age'' \<longrightarrow>
    (\<exists>s' n a.
       patient_app POST ''/patients'' (JObj kvs) s =
         (s', (200, Some (JObj [(''id'', JStr (decimal_str (next_identity t))),
                                (''name'', dict_get kvs ''name''),
                                (''age'', dict_get kvs ''age'')]))) \<and>
       patients s' = Some \<lparr>rows = rows t @ [\<lparr>p_id = next_identity t, p_name = n, p_age = a\<rparr>],
                            next_identity = next_identity t + 1\<rparr> \<and>
       (''name'' \<notin> fst ` set kvs \<longrightarrow> n = None \<and> dict_get kvs ''name'' = JNull) \<and>
       (''age'' \<notin> fst ` set kvs \<longrightarrow> a = None \<and> dict_get kvs ''age'' = JNull))) \<and>
   (online s \<and> appointments s = Some u \<and> identity_above a_id u \<and> next_identity u \<le> int_max \<and>
    accepted to_int_column kvs ''patient_id'' \<and>
    accepted (to_varchar_column 255) kvs ''doctor'' \<and>
    accepted to_date_column kvs ''date'' \<and> accepted to_time_column kvs ''time'' \<longrightarrow>
    (\<exists>s' p d dt tm.
       appointment_app POST ''/appointments'' (JObj kvs) s =
         (s', (200, Some (JObj [(''id'', JStr (decimal_str (next_identity u))),
                                (''patient_id'', dict_get kvs ''patient_id''),
                                (''doctor'', dict_get kvs ''doctor''),
                                (''date'', dict_get kvs ''date''),
                                (''time'', dict_get kvs ''time'')]))) \<and>
       appointments s' = Some
         \<lparr>rows = rows u @ [\<lparr>a_id = next_identity u, a_patient_id = p, a_doctor = d,
                             a_date = dt, a_time = tm\<rparr>],
          next_identity = next_identity u + 1\<rparr> \<and>
       (''patient_id'' \<notin> fst ` set kvs \<longrightarrow> p = None \<and> dict_get kvs ''patient_id'' = JNull) \<and>
       (''doctor'' \<notin> fst ` set kvs \<longrightarrow> d = None \<and> dict_get kvs ''doctor'' = JNull) \<and>
       (''date'' \<notin> fst ` set kvs \<longrightarrow> dt = None \<and> dict_get kvs ''date'' = JNull) \<and>
       (''time'' \<notin> fst ` set kvs \<longrightarrow> tm = None \<and> dict_get kvs ''time'' = JNull)))"
proof (intro conjI impI)
  assume h: "online s \<and> patients s = Some t \<and> identity_above p_id t \<and>
    next_identity t \<le> int_max \<and>
    accepted (to_varchar_column 255) kvs ''name'' \<and> accepted to_int_column kvs ''age''"
  then have on: "online s" and tb: "patients s = Some t" and mx: "next_identity t \<le> int_max"
    by simp_all
  from h have fresh: "next_identity t \<notin> set (map p_id (rows t))"
    by (auto simp: identity_above_def)
  from h accepted_value [of "to_varchar_column 255" kvs "''name''"] obtain n where
    n: "to_varchar_column 255 (dict_get kvs ''name'') = Inr n"
       "''name'' \<notin> fst ` set kvs \<longrightarrow> n = None"
    by auto
  from h accepted_value [of to_int_column kvs "''age''"] obtain a where
    a: "to_int_column (dict_get kvs ''age'') = Inr a"
       "''age'' \<notin> fst ` set kvs \<longrightarrow> a = None"
    by auto
  note add = add_patient_ok [OF on tb n(1) a(1) mx fresh]
  show "\<exists>s' n a.
       patient_app POST ''/patients'' (JObj kvs) s =
         (s', (200, Some (JObj [(''id'', JStr (decimal_str (next_identity t))),
                                (''name'', dict_get kvs ''name''),
                                (''age'', dict_get kvs ''age'')]))) \<and>
       patients s' = Some \<lparr>rows = rows t @ [\<lparr>p_id = next_identity t, p_name = n, p_age = a\<rparr>],
                            next_identity = next_identity t + 1\<rparr> \<and>
       (''name'' \<notin> fst ` set kvs \<longrightarrow> n = None \<and> dict_get kvs ''name'' = JNull) \<and>
       (''age'' \<notin> fst ` set kvs \<longrightarrow> a = None \<and> dict_get kvs ''age'' = JNull)"
    using n(2) a(2) by (simp add: patient_app_def add dict_get_absent)
next
  assume h: "online s \<and> appointments s = Some u \<and> identity_above a_id u \<and>
    next_identity u \<le> int_max \<and>
    accepted to_int_column kvs ''patient_id'' \<and>
    accepted (to_varchar_column 255) kvs ''doctor'' \<and>
    accepted to_date_column kvs ''date'' \<and> accepted to_time_column kvs ''time''"
  then have on: "online s" and tb: "appointments s = Some u"
    and mx: "next_identity u \<le> int_max"
    by simp_all
  from h have fresh: "next_identity u \<notin> set (map a_id (rows u))"
    by (auto simp: identity_above_def)
  from h accepted_value [of to_int_column kvs "''patient_id''"] obtain p where
    p: "to_int_column (dict_get kvs ''patient_id'') = Inr p"
       "''patient_id'' \<notin> fst ` set kvs \<longrightarrow> p = None"
    by auto
  from h accepted_value [of "to_varchar_column 255" kvs "''doctor''"] obtain d where
    d: "to_varchar_column 255 (dict_get kvs ''doctor'') = Inr d"
       "''doctor'' \<notin> fst ` set kvs \<longrightarrow> d = None"
    by auto
  from h accepted_value [of to_date_column kvs "''date''"] obtain dt where
    dt: "to_date_column (dict_get kvs ''date'') = Inr dt"
       "''date'' \<notin> fst ` set kvs \<longrightarrow> dt = None"
    by auto
  from h accepted_value [of to_time_column kvs "''time''"] obtain tm where
    tm: "to_time_column (dict_get kvs ''time'') = Inr tm"
       "''time'' \<notin> fst ` set kvs \<longrightarrow> tm = None"
    by auto
  note add = add_appointment_ok [OF on tb p(1) d(1) dt(1) tm(1) mx fresh]
  show "\<exists>s' p d dt tm.
       appointment_app POST ''/appointments'' (JObj kvs) s =
         (s', (200, Some (JObj [(''id'', JStr (decimal_str (next_identity u))),
                                (''patient_id'', dict_get kvs ''patient_id''),
                                (''doctor'', dict_get kvs ''doctor''),
                                (''date'', dict_get kvs ''date''),
                                (''time'', dict_get kvs ''time'')]))) \<and>
       appointments s' = Some
         \<lparr>rows = rows u @ [\<lparr>a_id = next_identity u, a_patient_id = p, a_doctor = d,
                             a_date = dt, a_time = tm\<rparr>],
          next_identity = next_identity u + 1\<rparr> \<and>
       (''patient_id'' \<notin> fst ` set kvs \<longrightarrow> p = None \<and> dict_get kvs ''patient_id'' = JNull) \<and>
       (''doctor'' \<notin> fst ` set kvs \<longrightarrow> d = None \<and> dict_get kvs ''doctor'' = JNull) \<and>
       (''date'' \<notin> fst ` set kvs \<longrightarrow> dt = None \<and> dict_get kvs ''date'' = JNull) \<and>
       (''time'' \<notin> fst ` set kvs \<longrightarrow> tm = None \<and> dict_get kvs ''time'' = JNull)"
    using p(2) d(2) dt(2) tm(2) by (simp add: appointment_app_def add dict_get_absent)
qed

theorem missing_fields_become_null_witness:
  "snd (patient_app POST ''/patients'' (JObj [(''age'', JInt 34)]) example_db) =
     (200, Some (JObj [(''id'', JStr ''1''), (''name'', JNull), (''age'', JInt 34)])) \<and>
   patients (fst (patient_app POST ''/patients'' (JObj [(''age'', JInt 34)]) example_db)) =
     Some \<lparr>rows = [\<lparr>p_id = 1, p_name = None, p_age = Some 34\<rparr>], next_identity = 2\<rparr> \<and>
   snd (appointment_app POST ''/appointments'' (JObj [(''age'', JInt 34)]) example_db) =
     (200, Some (JObj [(''id'', JStr ''1''), (''patient_id'', JNull), (''doctor'', JNull),
                       (''date'', JNull), (''time'', JNull)])) \<and>
   appointments (fst (appointment_app POST ''/appointments'' (JObj [(''age'', JInt 34)])
                        example_db)) =
     Some \<lparr>rows = [\<lparr>a_id = 1, a_patient_id = None, a_doctor = None, a_date = None,
                     a_time = None\<rparr>], next_identity = 2\<rparr>"
proof -
  have hp: "online example_db \<and> patients example_db = Some \<lparr>rows = [], next_identity = 1\<rparr> \<and>
    identity_above p_id \<lparr>rows = [], next_identity = 1\<rparr> \<and>
    next_identity \<lparr>rows = [], next_identity = 1\<rparr> \<le> int_max \<and>
    accepted (to_varchar_column 255) [(''age'', JInt 34)] ''name'' \<and>
    accepted to_int_column [(''age'', JInt 34)] ''age''"
    by (simp add: example_db_def identity_above_def int_max_def int_min_def accepted_def
        dict_get_def)
  have ha: "online example_db \<and>
    appointments example_db = Some \<lparr>rows = [], next_identity = 1\<rparr> \<and>
    identity_above a_id \<lparr>rows = [], next_identity = 1\<rparr> \<and>
    next_identity \<lparr>rows = [], next_identity = 1\<rparr> \<le> int_max \<and>
    accepted to_int_column [(''age'', JInt 34)] ''patient_id'' \<and>
    accepted (to_varchar_column 255) [(''age'', JInt 34)] ''doctor'' \<and>
    accepted to_date_column [(''age'', JInt 34)] ''date'' \<and>
    accepted to_time_column [(''age'', JInt 34)] ''time''"
    by (simp add: example_db_def identity_above_def int_max_def accepted_def)
  note m = missing_fields_become_null [of example_db "\<lparr>rows = [], next_identity = 1\<rparr>"
      "[(''age'', JInt 34)]" "\<lparr>rows = [], next_identity = 1\<rparr>"]
  from m [THEN conjunct1, THEN mp, OF hp] obtain s1 n a where
    p1: "patient_app POST ''/patients'' (JObj [(''age'', JInt 34)]) example_db =
         (s1, (200, Some (JObj [(''id'', JStr ''1''), (''name'', dict_get [(''age'', JInt 34)] ''name''),
                                (''age'', dict_get [(''age'', JInt 34)] ''age'')])))"
    and p2: "patients s1 = Some \<lparr>rows = [\<lparr>p_id = 1, p_name = n, p_age = a\<rparr>], next_identity = 2\<rparr>"
    and p3: "n = None"
    by (auto simp: decimal_str_one)
  have "patients (fst (patient_app POST ''/patients'' (JObj [(''age'', JInt 34)]) example_db)) =
      Some \<lparr>rows = [\<lparr>p_id = 1, p_name = None, p_age = Some 34\<rparr>], next_identity = 2\<rparr>"
    by (simp add: patient_app_def add_patient_def insert_patient_def with_connection_def
        get_db_connection_def commit_and_read_identity_def emit_def dict_get_def int_min_def
        int_max_def example_db_def)
  with p1 p2 have p4: "a = Some 34" by simp
  from m [THEN conjunct2, THEN mp, OF ha] obtain s2 p d dt tm where
    a1: "appointment_app POST ''/appointments'' (JObj [(''age'', JInt 34)]) example_db =
         (s2, (200, Some (JObj [(''id'', JStr ''1''),
                                (''patient_id'', dict_get [(''age'', JInt 34)] ''patient_id''),
                                (''doctor'', dict_get [(''age'', JInt 34)] ''doctor''),
                                (''date'', dict_get [(''age'', JInt 34)] ''date''),
                                (''time'', dict_get [(''age'', JInt 34)] ''time'')])))"
    and a2: "appointments s2 = Some
         \<lparr>rows = [\<lparr>a_id = 1, a_patient_id = p, a_doctor = d, a_date = dt, a_time = tm\<rparr>],
          next_identity = 2\<rparr>"
    and a3: "p = None" "d = None" "dt = None" "tm = None"
    by (auto simp: decimal_str_one)
  show ?thesis
    using p1 p2 p3 p4 a1 a2 a3 by (simp add: dict_get_def)
qed


section \<open>Connections of the handlers\<close>










section \<open>The identity column stays ahead\<close>

text \<open>
  The hypothesis on the identity column used above holds in every state the services
  themselves produce: loading a service on a server without the table creates it
  empty, and each handler keeps the identity ahead of every key.
\<close>

lemma identity_above_empty: "identity_above key empty_table"
  by (simp add: identity_above_def empty_table_def)

lemma patient_startup_creates:
  assumes "online s" and "patients s = None"
  shows "patients (fst (patient_startup s)) = Some empty_table \<and>
         snd (patient_startup s) = Inr ()"
  using assms
  by (simp add: patient_startup_def with_connection_def get_db_connection_def
      create_patients_table_def Let_def)

lemma patient_startup_keeps:
  assumes "patients s = Some t"
  shows "patients (fst (patient_startup s)) = Some t"
  using assms
  by (simp add: patient_startup_def with_connection_def get_db_connection_def
      create_patients_table_def Let_def)

lemma appointment_startup_creates:
  assumes "online s" and "appointments s = None"
  shows "appointments (fst (appointment_startup s)) = Some empty_table \<and>
         snd (appointment_startup s) = Inr ()"
  using assms
  by (simp add: appointment_startup_def with_connection_def get_db_connection_def
      create_appointments_table_def Let_def)

lemma add_patient_identity_above:
  assumes "patients s = Some t" and "identity_above p_id t"
  shows "\<exists>t'. patients (fst (add_patient data s)) = Some t' \<and> identity_above p_id t'"
proof (cases "add_patient data s")
  case (Pair s' r)
  show ?thesis
  proof (cases r)
    case (Inl e)
    with Pair add_patient_Inl [of data s s' e] assms show ?thesis by simp
  next
    case (Inr resp)
    with Pair add_patient_Inr [of data s s' resp] assms(1) obtain n a where
      "patients s' = Some \<lparr>rows = rows t @ [\<lparr>p_id = next_identity t, p_name = n, p_age = a\<rparr>],
                           next_identity = next_identity t + 1\<rparr>"
      by auto
    moreover have "identity_above p_id
        \<lparr>rows = rows t @ [\<lparr>p_id = next_identity t, p_name = n, p_age = a\<rparr>],
         next_identity = next_identity t + 1\<rparr>"
      using assms(2) by (fastforce simp: identity_above_def)
    ultimately show ?thesis using Pair by simp
  qed
qed

lemma get_patients_table: "patients (fst (get_patients s)) = patients s"
  by (cases "online s"; cases "patients s")
     (simp_all add: get_patients_offline get_patients_missing get_patients_online)

section \<open>Conversions of parameters\<close>

text \<open>
  A numeral text and a bit bound to an \<open>INT\<close> column, an integer bound to a \<open>VARCHAR\<close>
  column: the create takes them, the response repeats what the request gave, and the
  listing shows what the column holds.
\<close>

lemma numeral_text_age:
  "snd (patient_app POST ''/patients'' (JObj [(''name'', JInt 7), (''age'', JStr '' 34'')])
          example_db) =
     (200, Some (JObj [(''id'', JStr ''1''), (''name'', JInt 7), (''age'', JStr '' 34'')])) \<and>
   patients (fst (patient_app POST ''/patients''
                    (JObj [(''name'', JInt 7), (''age'', JStr '' 34'')]) example_db)) =
     Some \<lparr>rows = [\<lparr>p_id = 1, p_name = Some ''7'', p_age = Some 34\<rparr>], next_identity = 2\<rparr>"
  by (simp add: patient_app_def add_patient_def with_connection_def get_db_connection_def
      insert_patient_def commit_and_read_identity_def emit_def dict_get_def int_min_def
      int_max_def bigint_min_def bigint_max_def example_db_def decimal_str_def
      show_nat.simps digit_char_def parse_int_def strip_blanks_def digit_val_def)

end
